theory Spec2Isabelle
  imports Main
begin

section \<open>Strings\<close>

text \<open>
  Go strings are byte sequences; they are modelled as \<open>string\<close> (lists of 8-bit
  characters).  The helpers below are the functions of Go's \<^verbatim>\<open>strings\<close> package that
  \<^verbatim>\<open>internal/s3\<close> and \<^verbatim>\<open>cmd/proxy\<close> call.
\<close>

definition HasPrefix :: "string \<Rightarrow> string \<Rightarrow> bool" where
  "HasPrefix s p = (take (length p) s = p)"

definition HasSuffix :: "string \<Rightarrow> string \<Rightarrow> bool" where
  "HasSuffix s p = (length p \<le> length s \<and> drop (length s - length p) s = p)"

definition TrimPrefix :: "string \<Rightarrow> string \<Rightarrow> string" where
  "TrimPrefix s p = (if HasPrefix s p then drop (length p) s else s)"

text \<open>\<^verbatim>\<open>strings.IndexByte\<close>: index of the first occurrence of the byte, or \<open>-1\<close>.\<close>

fun IndexByte :: "string \<Rightarrow> char \<Rightarrow> int" where
  "IndexByte [] c = -1"
| "IndexByte (x # xs) c =
     (if x = c then 0
      else (let i = IndexByte xs c in if i < 0 then -1 else i + 1))"

text \<open>
  \<^verbatim>\<open>url.PathUnescape\<close>: every \<^verbatim>\<open>%XY\<close> with two hexadecimal digits becomes the byte
  \<open>0xXY\<close>; a \<^verbatim>\<open>%\<close> that is not followed by two hexadecimal digits is an error
  (\<open>None\<close>); every other byte, \<^verbatim>\<open>+\<close> included, is kept.
\<close>

definition ishex :: "char \<Rightarrow> bool" where
  "ishex c =
     (let b = (of_char c :: nat)
      in (of_char CHR ''0'' \<le> b \<and> b \<le> of_char CHR ''9'')
       \<or> (of_char CHR ''a'' \<le> b \<and> b \<le> of_char CHR ''f'')
       \<or> (of_char CHR ''A'' \<le> b \<and> b \<le> of_char CHR ''F''))"

definition unhex :: "char \<Rightarrow> nat" where
  "unhex c =
     (let b = (of_char c :: nat)
      in if of_char CHR ''0'' \<le> b \<and> b \<le> of_char CHR ''9'' then b - of_char CHR ''0''
         else if of_char CHR ''a'' \<le> b \<and> b \<le> of_char CHR ''f'' then b - of_char CHR ''a'' + 10
         else if of_char CHR ''A'' \<le> b \<and> b \<le> of_char CHR ''F'' then b - of_char CHR ''A'' + 10
         else 0)"

fun PathUnescape :: "string \<Rightarrow> string option" where
  "PathUnescape [] = Some []"
| "PathUnescape (c # s) =
     (if c = CHR ''%'' then
        (case s of
           h1 # h2 # t \<Rightarrow>
             (if ishex h1 \<and> ishex h2
              then map_option ((#) (char_of (unhex h1 * 16 + unhex h2))) (PathUnescape t)
              else None)
         | _ \<Rightarrow> None)
      else map_option ((#) c) (PathUnescape s))"

text \<open>\<^verbatim>\<open>strconv.FormatInt(n, 10)\<close>.\<close>

fun FormatUint :: "nat \<Rightarrow> string" where
  "FormatUint n =
     (if n < 10 then [char_of (of_char CHR ''0'' + n)]
      else FormatUint (n div 10) @ [char_of (of_char CHR ''0'' + n mod 10)])"

definition FormatInt :: "int \<Rightarrow> string" where
  "FormatInt i = (if i < 0 then CHR ''-'' # FormatUint (nat (- i)) else FormatUint (nat i))"

section \<open>Path joining\<close>

definition JoinPath :: "string \<Rightarrow> string \<Rightarrow> string" where
  "JoinPath a b =
     (if HasSuffix a ''/'' \<and> HasPrefix b ''/'' then a @ drop 1 b
      else if \<not> HasSuffix a ''/'' \<and> \<not> HasPrefix b ''/'' then a @ ''/'' @ b
      else a @ b)"

section \<open>Upstream errors and their translation\<close>

text \<open>
  The errors \<^verbatim>\<open>s3ErrorToStatus\<close> can tell apart.  A Go error is a chain linked by
  \<^verbatim>\<open>Unwrap\<close>:
  \<^item> \<open>DeadlineExceeded\<close> is the sentinel \<^verbatim>\<open>context.DeadlineExceeded\<close>;
  \<^item> \<open>ResponseError resp err\<close> is a \<^verbatim>\<open>*smithyhttp.ResponseError\<close>: \<open>resp\<close> is the
    status code of its \<^verbatim>\<open>Response\<close> (\<open>None\<close> for a nil response), \<open>err\<close> the error it
    wraps;
  \<^item> \<open>OperationError err\<close> is a \<^verbatim>\<open>*smithy.OperationError\<close> wrapping \<open>err\<close>
    (\<open>None\<close> for a nil \<^verbatim>\<open>Err\<close>);
  \<^item> \<open>APIError code\<close> is an error implementing \<^verbatim>\<open>smithy.APIError\<close> whose
    \<^verbatim>\<open>ErrorCode()\<close> is \<open>code\<close> (\<^verbatim>\<open>smithy.GenericAPIError\<close>, \<^verbatim>\<open>types.NoSuchKey\<close>, ...);
    these wrap nothing;
  \<^item> \<open>Wrapped err\<close> is any other wrapper (\<^verbatim>\<open>fmt.Errorf("...%w", err)\<close>);
  \<^item> \<open>Opaque\<close> is any other error (\<^verbatim>\<open>errors.New\<close>).
\<close>

datatype go_error =
    DeadlineExceeded
  | ResponseError "int option" "go_error option"
  | OperationError "go_error option"
  | APIError string
  | Wrapped go_error
  | Opaque

text \<open>\<^verbatim>\<open>errors.Is(err, context.DeadlineExceeded)\<close>: some error of the chain is the sentinel.\<close>

fun errorsIsDeadlineExceeded :: "go_error \<Rightarrow> bool" where
  "errorsIsDeadlineExceeded DeadlineExceeded = True"
| "errorsIsDeadlineExceeded (ResponseError resp (Some e)) = errorsIsDeadlineExceeded e"
| "errorsIsDeadlineExceeded (ResponseError resp None) = False"
| "errorsIsDeadlineExceeded (OperationError (Some e)) = errorsIsDeadlineExceeded e"
| "errorsIsDeadlineExceeded (OperationError None) = False"
| "errorsIsDeadlineExceeded (APIError code) = False"
| "errorsIsDeadlineExceeded (Wrapped e) = errorsIsDeadlineExceeded e"
| "errorsIsDeadlineExceeded Opaque = False"

text \<open>
  \<^verbatim>\<open>errors.As(err, &respErr)\<close>: the first \<^verbatim>\<open>*smithyhttp.ResponseError\<close> of the chain;
  the result is its \<^verbatim>\<open>Response\<close> (status code, or \<open>None\<close> when nil).
\<close>

fun errorsAsResponseError :: "go_error \<Rightarrow> int option option" where
  "errorsAsResponseError DeadlineExceeded = None"
| "errorsAsResponseError (ResponseError resp e) = Some resp"
| "errorsAsResponseError (OperationError (Some e)) = errorsAsResponseError e"
| "errorsAsResponseError (OperationError None) = None"
| "errorsAsResponseError (APIError code) = None"
| "errorsAsResponseError (Wrapped e) = errorsAsResponseError e"
| "errorsAsResponseError Opaque = None"

text \<open>
  \<^verbatim>\<open>errors.As(err, &opErr)\<close>: the first \<^verbatim>\<open>*smithy.OperationError\<close> of the chain; the
  result is its \<^verbatim>\<open>Err\<close>.
\<close>

fun errorsAsOperationError :: "go_error \<Rightarrow> go_error option option" where
  "errorsAsOperationError DeadlineExceeded = None"
| "errorsAsOperationError (ResponseError resp (Some e)) = errorsAsOperationError e"
| "errorsAsOperationError (ResponseError resp None) = None"
| "errorsAsOperationError (OperationError e) = Some e"
| "errorsAsOperationError (APIError code) = None"
| "errorsAsOperationError (Wrapped e) = errorsAsOperationError e"
| "errorsAsOperationError Opaque = None"

text \<open>
  \<^verbatim>\<open>errors.As(err, &apiErr)\<close>: the first error of the chain implementing
  \<^verbatim>\<open>smithy.APIError\<close>; the result is its \<^verbatim>\<open>ErrorCode()\<close>.
\<close>

fun errorsAsAPIError :: "go_error \<Rightarrow> string option" where
  "errorsAsAPIError DeadlineExceeded = None"
| "errorsAsAPIError (ResponseError resp (Some e)) = errorsAsAPIError e"
| "errorsAsAPIError (ResponseError resp None) = None"
| "errorsAsAPIError (OperationError (Some e)) = errorsAsAPIError e"
| "errorsAsAPIError (OperationError None) = None"
| "errorsAsAPIError (APIError code) = Some code"
| "errorsAsAPIError (Wrapped e) = errorsAsAPIError e"
| "errorsAsAPIError Opaque = None"

text \<open>The status constants of \<^verbatim>\<open>net/http\<close> that the package names.\<close>

abbreviation StatusOK :: int where "StatusOK \<equiv> 200"
abbreviation StatusBadRequest :: int where "StatusBadRequest \<equiv> 400"
abbreviation StatusForbidden :: int where "StatusForbidden \<equiv> 403"
abbreviation StatusNotFound :: int where "StatusNotFound \<equiv> 404"
abbreviation StatusRequestTimeout :: int where "StatusRequestTimeout \<equiv> 408"
abbreviation StatusPreconditionFailed :: int where "StatusPreconditionFailed \<equiv> 412"
abbreviation StatusRequestedRangeNotSatisfiable :: int where
  "StatusRequestedRangeNotSatisfiable \<equiv> 416"
abbreviation StatusInternalServerError :: int where "StatusInternalServerError \<equiv> 500"
abbreviation StatusBadGateway :: int where "StatusBadGateway \<equiv> 502"
abbreviation StatusServiceUnavailable :: int where "StatusServiceUnavailable \<equiv> 503"
abbreviation StatusGatewayTimeout :: int where "StatusGatewayTimeout \<equiv> 504"

text \<open>
  The \<^verbatim>\<open>switch apiErr.ErrorCode()\<close> of \<^verbatim>\<open>s3ErrorToStatus\<close>; \<open>None\<close> when no case
  matches and control falls out of the switch.
\<close>

definition errorCodeSwitch :: "string \<Rightarrow> int option" where
  "errorCodeSwitch code =
     (if code \<in> set [''NoSuchBucket'', ''NoSuchKey'', ''NotFound'', ''NoSuchVersion'']
        then Some StatusNotFound
      else if code \<in> set [''AccessDenied'', ''Forbidden'', ''SignatureDoesNotMatch'',
                 ''InvalidAccessKeyId'', ''ExpiredToken'', ''RequestTimeTooSkewed'',
                 ''InvalidObjectState'']
        then Some StatusForbidden
      else if code = ''PreconditionFailed'' then Some StatusPreconditionFailed
      else if code = ''InvalidRange'' then Some StatusRequestedRangeNotSatisfiable
      else if code \<in> set [''AuthorizationHeaderMalformed'', ''InvalidRequest'',
                 ''InvalidArgument'', ''MalformedXML'']
        then Some StatusBadRequest
      else if code = ''RequestTimeout'' then Some StatusRequestTimeout
      else if code \<in> set [''SlowDown'', ''ServiceUnavailable''] then Some StatusServiceUnavailable
      else if code = ''InternalError'' then Some StatusInternalServerError
      else None)"

function s3ErrorToStatus :: "go_error \<Rightarrow> int" where
  "s3ErrorToStatus err =
     (if errorsIsDeadlineExceeded err then StatusGatewayTimeout
      else case errorsAsResponseError err of
        Some (Some code) \<Rightarrow> code
      | _ \<Rightarrow>
        (case errorsAsOperationError err of
           Some (Some inner) \<Rightarrow> s3ErrorToStatus inner
         | _ \<Rightarrow>
           (case errorsAsAPIError err of
              Some code \<Rightarrow>
                (case errorCodeSwitch code of Some st \<Rightarrow> st | None \<Rightarrow> StatusBadGateway)
            | None \<Rightarrow> StatusBadGateway)))"
  by pat_completeness auto
termination
proof -
  have smaller: "size inner < size err"
    if "errorsAsOperationError err = Some (Some inner)" for err inner
    using that by (induction err rule: errorsAsOperationError.induct) auto
  show ?thesis
    by (relation "measure size") (auto simp: smaller)
qed

declare s3ErrorToStatus.simps [simp del]

section \<open>Requests, configuration, the object store and responses\<close>

text \<open>
  The part of \<^verbatim>\<open>*http.Request\<close> that the handlers read.  \<open>Header\<close> maps a canonical
  header name to its value; \<^verbatim>\<open>Header.Get\<close> yields the empty string for an absent name.
\<close>

record Request =
  Method :: string
  URL_Path :: string
  Header :: "string \<rightharpoonup> string"

definition Header_Get :: "(string \<rightharpoonup> string) \<Rightarrow> string \<Rightarrow> string" where
  "Header_Get h k = (case h k of None \<Rightarrow> [] | Some v \<Rightarrow> v)"

text \<open>The fields of \<^verbatim>\<open>config.FrontendAssetProxyConfig\<close> that \<^verbatim>\<open>ProxyS3\<close> and the routes read.\<close>

record Config =
  BucketPathPrefix :: string
  SPAEntrypointPath :: string

text \<open>
  \<^verbatim>\<open>s3.GetObjectInput\<close> and \<^verbatim>\<open>s3.GetObjectOutput\<close>; a nil pointer field is \<open>None\<close>.  The
  type \<open>'t\<close> stands for \<^verbatim>\<open>time.Time\<close>.  \<open>Body\<close> is the content of the object's byte
  stream.
\<close>

record 't GetObjectInput =
  Bucket :: string
  Key :: string
  Range_hdr :: "string option"
  IfNoneMatch :: "string option"
  IfMatch :: "string option"
  IfModifiedSince :: "'t option"
  IfUnmodifiedSince :: "'t option"

record 't GetObjectOutput =
  Body :: string
  ContentType :: "string option"
  ETag :: "string option"
  CacheControl :: "string option"
  ContentEncoding :: "string option"
  ContentDisposition :: "string option"
  ContentLanguage :: "string option"
  ExpiresString :: "string option"
  AcceptRanges :: "string option"
  ContentLength :: "int option"
  LastModified :: "'t option"

text \<open>
  The object store client.  \<open>GetObject\<close> takes the state of the store (\<open>'s\<close>) and the
  input, and returns an error or the object together with the next state, so two calls
  with the same input may answer differently.
\<close>

record ('s, 't) S3Client =
  GetObject :: "'s \<Rightarrow> 't GetObjectInput \<Rightarrow> (go_error + 't GetObjectOutput) \<times> 's"

text \<open>
  The two functions of the standard library on \<^verbatim>\<open>time.Time\<close> that the package calls:
  \<^verbatim>\<open>http.ParseTime\<close> (\<open>None\<close> for a parse error) and
  \<^verbatim>\<open>t.UTC().Format(http.TimeFormat)\<close>.
\<close>

record 't TimeLib =
  ParseTime :: "string \<Rightarrow> 't option"
  FormatHTTPTime :: "'t \<Rightarrow> string"

text \<open>
  What a handler has done to its \<^verbatim>\<open>http.ResponseWriter\<close> when it returns, as
  \<^verbatim>\<open>httptest.ResponseRecorder\<close> records it: the code given to \<^verbatim>\<open>WriteHeader\<close>, the
  header map, and the bytes written.
\<close>

record Response =
  Code :: int
  HeaderMap :: "string \<rightharpoonup> string"
  RespBody :: string

text \<open>\<^verbatim>\<open>http.StatusText\<close>: the table of \<^verbatim>\<open>net/http\<close>; the empty string for an unknown code.\<close>

definition statusTextTable :: "(int \<times> string) list" where
  "statusTextTable =
    [(100, ''Continue''), (101, ''Switching Protocols''), (102, ''Processing''),
     (103, ''Early Hints''),
     (200, ''OK''), (201, ''Created''), (202, ''Accepted''),
     (203, ''Non-Authoritative Information''), (204, ''No Content''),
     (205, ''Reset Content''), (206, ''Partial Content''), (207, ''Multi-Status''),
     (208, ''Already Reported''), (226, ''IM Used''),
     (300, ''Multiple Choices''), (301, ''Moved Permanently''), (302, ''Found''),
     (303, ''See Other''), (304, ''Not Modified''), (305, ''Use Proxy''),
     (307, ''Temporary Redirect''), (308, ''Permanent Redirect''),
     (400, ''Bad Request''), (401, ''Unauthorized''), (402, ''Payment Required''),
     (403, ''Forbidden''), (404, ''Not Found''), (405, ''Method Not Allowed''),
     (406, ''Not Acceptable''), (407, ''Proxy Authentication Required''),
     (408, ''Request Timeout''), (409, ''Conflict''), (410, ''Gone''),
     (411, ''Length Required''), (412, ''Precondition Failed''),
     (413, ''Request Entity Too Large''), (414, ''Request URI Too Long''),
     (415, ''Unsupported Media Type''), (416, ''Requested Range Not Satisfiable''),
     (417, ''Expectation Failed''), (418, ''I'' @ [CHR 0x27] @ ''m a teapot''),
     (421, ''Misdirected Request''), (422, ''Unprocessable Entity''), (423, ''Locked''),
     (424, ''Failed Dependency''), (425, ''Too Early''), (426, ''Upgrade Required''),
     (428, ''Precondition Required''), (429, ''Too Many Requests''),
     (431, ''Request Header Fields Too Large''), (451, ''Unavailable For Legal Reasons''),
     (500, ''Internal Server Error''), (501, ''Not Implemented''), (502, ''Bad Gateway''),
     (503, ''Service Unavailable''), (504, ''Gateway Timeout''),
     (505, ''HTTP Version Not Supported''), (506, ''Variant Also Negotiates''),
     (507, ''Insufficient Storage''), (508, ''Loop Detected''), (510, ''Not Extended''),
     (511, ''Network Authentication Required'')]"

definition StatusText :: "int \<Rightarrow> string" where
  "StatusText code = (case map_of statusTextTable code of Some s \<Rightarrow> s | None \<Rightarrow> [])"

text \<open>
  \<^verbatim>\<open>http.Error(w, error, code)\<close> on a writer to which nothing has been written: it
  sets the two headers, calls \<^verbatim>\<open>WriteHeader(code)\<close> and prints the message and a newline.
  \<^verbatim>\<open>WriteHeader\<close> panics on a code that does not have three digits; the panic is the
  result \<open>None\<close>.
\<close>

definition http_Error :: "string \<Rightarrow> int \<Rightarrow> Response option" where
  "http_Error msg code =
     (if code < 100 \<or> code > 999 then None
      else Some \<lparr>Code = code,
                 HeaderMap = [''Content-Type'' \<mapsto> ''text/plain; charset=utf-8'',
                              ''X-Content-Type-Options'' \<mapsto> ''nosniff''],
                 RespBody = msg @ [CHR 0x0A]\<rparr>)"

definition setHeaderFromStringPtr ::
    "(string \<rightharpoonup> string) \<Rightarrow> string \<Rightarrow> string option \<Rightarrow> (string \<rightharpoonup> string)" where
  "setHeaderFromStringPtr h key val = (case val of None \<Rightarrow> h | Some v \<Rightarrow> h(key \<mapsto> v))"

section \<open>ProxyS3\<close>

text \<open>
  The first lines of \<^verbatim>\<open>ProxyS3\<close>: the bucket and the key of the full path
  \<^verbatim>\<open>/bucket/key...\<close>, or \<open>None\<close> where the function answers 400.  The key is
  percent-decoded; when decoding fails the raw key is kept.
\<close>

definition splitBucketKey :: "string \<Rightarrow> (string \<times> string) option" where
  "splitBucketKey full =
     (let path = TrimPrefix full ''/'';
          idx = IndexByte path CHR ''/''
      in if idx \<le> 0 \<or> idx \<ge> int (length path) - 1 then None
         else
           (let bucket = take (nat idx) path;
                key = drop (nat idx + 1) path;
                key = (case PathUnescape key of Some ukey \<Rightarrow> ukey | None \<Rightarrow> key)
            in Some (bucket, key)))"

text \<open>
  The \<^verbatim>\<open>GetObjectInput\<close> that \<^verbatim>\<open>ProxyS3\<close> builds from the request's range and
  conditional headers.
\<close>

definition newGetObjectInput ::
    "'t TimeLib \<Rightarrow> Request \<Rightarrow> string \<Rightarrow> string \<Rightarrow> 't GetObjectInput" where
  "newGetObjectInput lib r bucket key =
     (let inp = \<lparr>Bucket = bucket, Key = key, Range_hdr = None, IfNoneMatch = None,
                 IfMatch = None, IfModifiedSince = None, IfUnmodifiedSince = None\<rparr>;
          inp = (let v = Header_Get (Header r) ''Range''
                 in if v \<noteq> [] then inp\<lparr>Range_hdr := Some v\<rparr> else inp);
          inp = (let v = Header_Get (Header r) ''If-None-Match''
                 in if v \<noteq> [] then inp\<lparr>IfNoneMatch := Some v\<rparr> else inp);
          inp = (let v = Header_Get (Header r) ''If-Match''
                 in if v \<noteq> [] then inp\<lparr>IfMatch := Some v\<rparr> else inp);
          inp = (let v = Header_Get (Header r) ''If-Modified-Since''
                 in if v \<noteq> [] then
                      (case ParseTime lib v of
                         Some t \<Rightarrow> inp\<lparr>IfModifiedSince := Some t\<rparr>
                       | None \<Rightarrow> inp)
                    else inp);
          inp = (let v = Header_Get (Header r) ''If-Unmodified-Since''
                 in if v \<noteq> [] then
                      (case ParseTime lib v of
                         Some t \<Rightarrow> inp\<lparr>IfUnmodifiedSince := Some t\<rparr>
                       | None \<Rightarrow> inp)
                    else inp)
      in inp)"

text \<open>
  The last lines of \<^verbatim>\<open>ProxyS3\<close>, after a fetch without error: the headers, status 200,
  and the body unless the method is HEAD.  \<^verbatim>\<open>io.Copy\<close> is taken to copy the whole
  stream.
\<close>

definition MethodHead :: string where
  "MethodHead = ''HEAD''"

definition writeObject :: "'t TimeLib \<Rightarrow> Request \<Rightarrow> 't GetObjectOutput \<Rightarrow> Response" where
  "writeObject lib r obj =
     (let h = [''Vary'' \<mapsto> ''Accept-Encoding''];
          h = setHeaderFromStringPtr h ''Content-Type'' (ContentType obj);
          h = setHeaderFromStringPtr h ''ETag'' (ETag obj);
          h = setHeaderFromStringPtr h ''Cache-Control'' (CacheControl obj);
          h = setHeaderFromStringPtr h ''Content-Encoding'' (ContentEncoding obj);
          h = setHeaderFromStringPtr h ''Content-Disposition'' (ContentDisposition obj);
          h = setHeaderFromStringPtr h ''Content-Language'' (ContentLanguage obj);
          h = setHeaderFromStringPtr h ''Expires'' (ExpiresString obj);
          h = setHeaderFromStringPtr h ''Accept-Ranges'' (AcceptRanges obj);
          h = (case ContentLength obj of
                 Some n \<Rightarrow> h(''Content-Length'' \<mapsto> FormatInt n)
               | None \<Rightarrow> h);
          h = (case LastModified obj of
                 Some t \<Rightarrow> h(''Last-Modified'' \<mapsto> FormatHTTPTime lib t)
               | None \<Rightarrow> h)
      in \<lparr>Code = StatusOK, HeaderMap = h,
          RespBody = (if Method r \<noteq> MethodHead then Body obj else [])\<rparr>)"

text \<open>
  A run of \<^verbatim>\<open>ProxyS3\<close> yields the response (\<open>None\<close> when \<^verbatim>\<open>WriteHeader\<close> panicked),
  the calls of \<open>GetObject\<close> in order, each with its result, and the last state of the
  store.  Logging and the cancellation of the context are left out: they write nothing
  to the response and call nothing upstream.
\<close>

type_synonym ('s, 't) run =
  "Response option \<times> ('t GetObjectInput \<times> (go_error + 't GetObjectOutput)) list \<times> 's"

function ProxyS3 ::
    "'t TimeLib \<Rightarrow> ('s, 't) S3Client \<Rightarrow> 's \<Rightarrow> Request \<Rightarrow> Config \<Rightarrow> string \<Rightarrow> ('s, 't) run" where
  "ProxyS3 lib s3c \<sigma> r cfg full =
     (case splitBucketKey full of
        None \<Rightarrow> (http_Error ''bad request'' StatusBadRequest, [], \<sigma>)
      | Some (bucket, key) \<Rightarrow>
          (let inp = newGetObjectInput lib r bucket key;
               (res, \<sigma>') = GetObject s3c \<sigma> inp
           in case res of
                Inl err \<Rightarrow>
                  (let status = s3ErrorToStatus err;
                       failure = (http_Error (StatusText status) status, [(inp, res)], \<sigma>')
                   in if status = StatusNotFound \<or> status = StatusForbidden then
                        (let spa = SPAEntrypointPath cfg
                         in if spa \<noteq> [] then
                              (let spaPath = JoinPath (BucketPathPrefix cfg) spa
                               in if full \<noteq> spaPath then
                                    (let (resp, calls, \<sigma>'') = ProxyS3 lib s3c \<sigma>' r cfg spaPath
                                     in (resp, (inp, res) # calls, \<sigma>''))
                                  else failure)
                            else failure)
                      else failure)
              | Inr obj \<Rightarrow> (Some (writeObject lib r obj), [(inp, res)], \<sigma>')))"
  by pat_completeness auto
termination
  by (relation "measure (\<lambda>(lib, s3c, \<sigma>, r, cfg, full).
        if full = JoinPath (BucketPathPrefix cfg) (SPAEntrypointPath cfg) then 0 else 1)")
     auto

declare ProxyS3.simps [simp del]

section \<open>Routes\<close>

text \<open>
  The handlers that \<^verbatim>\<open>main\<close> registers for \<^verbatim>\<open>GET /manifests/*\<close>, \<^verbatim>\<open>GET /apps/*\<close>,
  \<^verbatim>\<open>HEAD /*\<close> and \<^verbatim>\<open>GET /*\<close>: each computes the full object path and calls
  \<^verbatim>\<open>ProxyS3\<close>.
\<close>

definition manifestsPath :: "Config \<Rightarrow> Request \<Rightarrow> string" where
  "manifestsPath cfg r = JoinPath (BucketPathPrefix cfg) (URL_Path r)"

definition appsPath :: "Config \<Rightarrow> Request \<Rightarrow> string" where
  "appsPath cfg r =
     (let trimmed = TrimPrefix (URL_Path r) ''/apps''
      in JoinPath (BucketPathPrefix cfg) (''/data'' @ trimmed))"

definition dataPath :: "Config \<Rightarrow> Request \<Rightarrow> string" where
  "dataPath cfg r = JoinPath (BucketPathPrefix cfg) (''/data'' @ URL_Path r)"

definition manifestsHandler ::
    "'t TimeLib \<Rightarrow> ('s, 't) S3Client \<Rightarrow> 's \<Rightarrow> Config \<Rightarrow> Request \<Rightarrow> ('s, 't) run" where
  "manifestsHandler lib s3c \<sigma> cfg r = ProxyS3 lib s3c \<sigma> r cfg (manifestsPath cfg r)"

definition appsHandler ::
    "'t TimeLib \<Rightarrow> ('s, 't) S3Client \<Rightarrow> 's \<Rightarrow> Config \<Rightarrow> Request \<Rightarrow> ('s, 't) run" where
  "appsHandler lib s3c \<sigma> cfg r = ProxyS3 lib s3c \<sigma> r cfg (appsPath cfg r)"

definition dataHandler ::
    "'t TimeLib \<Rightarrow> ('s, 't) S3Client \<Rightarrow> 's \<Rightarrow> Config \<Rightarrow> Request \<Rightarrow> ('s, 't) run" where
  "dataHandler lib s3c \<sigma> cfg r = ProxyS3 lib s3c \<sigma> r cfg (dataPath cfg r)"

section \<open>The fallback guard\<close>

text \<open>
  The SPA entry object path that \<^verbatim>\<open>ProxyS3\<close> computes, and the three nested conditions
  under which it calls itself with that path.
\<close>

definition spaObjectPath :: "Config \<Rightarrow> string" where
  "spaObjectPath cfg = JoinPath (BucketPathPrefix cfg) (SPAEntrypointPath cfg)"

definition fallbackGuard :: "Config \<Rightarrow> string \<Rightarrow> int \<Rightarrow> bool" where
  "fallbackGuard cfg full status =
     ((status = StatusNotFound \<or> status = StatusForbidden) \<and> SPAEntrypointPath cfg \<noteq> []
      \<and> full \<noteq> spaObjectPath cfg)"

section \<open>Reading a run\<close>

definition response_of :: "('s, 't) run \<Rightarrow> Response option" where
  "response_of run = fst run"

definition calls_of ::
    "('s, 't) run \<Rightarrow> ('t GetObjectInput \<times> (go_error + 't GetObjectOutput)) list" where
  "calls_of run = fst (snd run)"

definition store_of :: "('s, 't) run \<Rightarrow> 's" where
  "store_of run = snd (snd run)"

section \<open>Example configurations, requests and stores\<close>

text \<open>The defaults of \<^verbatim>\<open>config.FromEnv\<close>.\<close>

definition defaultConfig :: Config where
  "defaultConfig = \<lparr>BucketPathPrefix = ''/frontend-assets'', SPAEntrypointPath = ''/index.html''\<rparr>"

text \<open>Times as seconds since the epoch; one date is known to the example library.\<close>

definition exampleLib :: "nat TimeLib" where
  "exampleLib =
     \<lparr>ParseTime = (\<lambda>s. if s = ''Wed, 21 Oct 2015 07:28:00 GMT'' then Some 1445412480 else None),
      FormatHTTPTime = (\<lambda>t. if t = 1445412480 then ''Wed, 21 Oct 2015 07:28:00 GMT'' else [])\<rparr>"

definition getRequest :: "string \<Rightarrow> Request" where
  "getRequest p = \<lparr>Method = ''GET'', URL_Path = p, Header = Map.empty\<rparr>"

text \<open>A store without objects: every fetch fails with \<^verbatim>\<open>NoSuchKey\<close>.\<close>

definition emptyStore :: "(unit, nat) S3Client" where
  "emptyStore = \<lparr>GetObject = (\<lambda>\<sigma> inp. (Inl (APIError ''NoSuchKey''), \<sigma>))\<rparr>"

text \<open>A request with the range header and the four conditional headers.\<close>

definition conditionalRequest :: "string \<Rightarrow> Request" where
  "conditionalRequest p =
     \<lparr>Method = ''GET'', URL_Path = p,
      Header = [''Range'' \<mapsto> ''bytes=0-99'',
                ''If-None-Match'' \<mapsto> ''etag-1'',
                ''If-Match'' \<mapsto> ''etag-2'',
                ''If-Modified-Since'' \<mapsto> ''Wed, 21 Oct 2015 07:28:00 GMT'',
                ''If-Unmodified-Since'' \<mapsto> ''Wed, 21 Oct 2015 07:28:00 GMT'']\<rparr>"

definition headRequest :: "string \<Rightarrow> Request" where
  "headRequest p = \<lparr>Method = ''HEAD'', URL_Path = p, Header = Map.empty\<rparr>"

text \<open>
  A store whose bucket \<^verbatim>\<open>frontend-assets\<close> holds \<^verbatim>\<open>index.html\<close> at its root and
  \<^verbatim>\<open>data/chrome/navigation.json\<close>, and nothing else.
\<close>

definition indexObject :: "nat GetObjectOutput" where
  "indexObject =
     \<lparr>Body = ''<html></html>'', ContentType = Some ''text/html'', ETag = None,
      CacheControl = None, ContentEncoding = None, ContentDisposition = None,
      ContentLanguage = None, ExpiresString = None, AcceptRanges = None,
      ContentLength = Some 13, LastModified = None\<rparr>"

definition navigationObject :: "nat GetObjectOutput" where
  "navigationObject =
     \<lparr>Body = ''{}'', ContentType = Some ''application/json'', ETag = None,
      CacheControl = None, ContentEncoding = None, ContentDisposition = None,
      ContentLanguage = None, ExpiresString = None, AcceptRanges = None,
      ContentLength = Some 2, LastModified = None\<rparr>"

definition assetStore :: "(unit, nat) S3Client" where
  "assetStore =
     \<lparr>GetObject = (\<lambda>\<sigma> inp.
        if Bucket inp = ''frontend-assets'' \<and> Key inp = ''index.html''
          then (Inr indexObject, \<sigma>)
        else if Bucket inp = ''frontend-assets'' \<and> Key inp = ''data/chrome/navigation.json''
          then (Inr navigationObject, \<sigma>)
        else (Inl (APIError ''NoSuchKey''), \<sigma>))\<rparr>"

text \<open>A configuration whose SPA entry path is the bare slash.\<close>

definition slashConfig :: Config where
  "slashConfig = \<lparr>BucketPathPrefix = ''/frontend-assets'', SPAEntrypointPath = ''/''\<rparr>"

text \<open>
  Example runs: a path that names no object, fetched from the empty store without and
  with the conditional headers and from the store that holds \<^verbatim>\<open>index.html\<close>, by GET and
  by HEAD; the same path under the configuration whose SPA entry path is the bare
  slash; and \<^verbatim>\<open>GET /apps/chrome/navigation.json\<close>.
\<close>

definition missingAssetRun :: "(unit, nat) run" where
  "missingAssetRun =
     dataHandler exampleLib emptyStore () defaultConfig (getRequest ''/unknown/path'')"

definition conditionalRun :: "(unit, nat) run" where
  "conditionalRun =
     dataHandler exampleLib emptyStore () defaultConfig (conditionalRequest ''/unknown/path'')"

definition spaFallbackRun :: "(unit, nat) run" where
  "spaFallbackRun =
     dataHandler exampleLib assetStore () defaultConfig (getRequest ''/unknown/path'')"

definition spaFallbackHeadRun :: "(unit, nat) run" where
  "spaFallbackHeadRun =
     dataHandler exampleLib assetStore () defaultConfig (headRequest ''/unknown/path'')"

definition slashRun :: "(unit, nat) run" where
  "slashRun = dataHandler exampleLib emptyStore () slashConfig (getRequest ''/unknown/path'')"

definition navigationRun :: "(unit, nat) run" where
  "navigationRun =
     appsHandler exampleLib assetStore () defaultConfig
       (getRequest ''/apps/chrome/navigation.json'')"

section \<open>Failure categories\<close>

text \<open>
  The failure categories of the status translation.  \<open>categoryOf\<close> reads the category
  of an error the way \<^verbatim>\<open>s3ErrorToStatus\<close> groups the error codes in the cases of its
  switch, the deadline first.
\<close>

datatype category =
    DeadlineExceededCategory
  | NotFoundCategory
  | AccessDeniedCategory
  | PreconditionFailedCategory
  | InvalidRangeCategory
  | MalformedRequestCategory
  | RequestTimeoutCategory
  | UnavailableCategory
  | InternalErrorCategory
  | UnrecognizedCategory

definition categoryOf :: "go_error \<Rightarrow> category" where
  "categoryOf err =
     (if errorsIsDeadlineExceeded err then DeadlineExceededCategory
      else case errorsAsAPIError err of
        None \<Rightarrow> UnrecognizedCategory
      | Some code \<Rightarrow>
         (if code \<in> set [''NoSuchBucket'', ''NoSuchKey'', ''NotFound'', ''NoSuchVersion'']
            then NotFoundCategory
          else if code \<in> set [''AccessDenied'', ''Forbidden'', ''SignatureDoesNotMatch'',
                     ''InvalidAccessKeyId'', ''ExpiredToken'', ''RequestTimeTooSkewed'',
                     ''InvalidObjectState'']
            then AccessDeniedCategory
          else if code = ''PreconditionFailed'' then PreconditionFailedCategory
          else if code = ''InvalidRange'' then InvalidRangeCategory
          else if code \<in> set [''AuthorizationHeaderMalformed'', ''InvalidRequest'',
                     ''InvalidArgument'', ''MalformedXML'']
            then MalformedRequestCategory
          else if code = ''RequestTimeout'' then RequestTimeoutCategory
          else if code \<in> set [''SlowDown'', ''ServiceUnavailable''] then UnavailableCategory
          else if code = ''InternalError'' then InternalErrorCategory
          else UnrecognizedCategory))"

text \<open>The translation table as the specification words it: one status for each category.\<close>

fun spec_categoryStatus :: "category \<Rightarrow> int" where
  "spec_categoryStatus DeadlineExceededCategory = 504"
| "spec_categoryStatus NotFoundCategory = 404"
| "spec_categoryStatus AccessDeniedCategory = 403"
| "spec_categoryStatus PreconditionFailedCategory = 412"
| "spec_categoryStatus InvalidRangeCategory = 416"
| "spec_categoryStatus MalformedRequestCategory = 400"
| "spec_categoryStatus RequestTimeoutCategory = 408"
| "spec_categoryStatus UnavailableCategory = 503"
| "spec_categoryStatus InternalErrorCategory = 500"
| "spec_categoryStatus UnrecognizedCategory = 502"

text \<open>Some \<^verbatim>\<open>ResponseError\<close> of the chain has a response.\<close>

fun carriesResponse :: "go_error \<Rightarrow> bool" where
  "carriesResponse DeadlineExceeded = False"
| "carriesResponse (ResponseError (Some code) e) = True"
| "carriesResponse (ResponseError None (Some e)) = carriesResponse e"
| "carriesResponse (ResponseError None None) = False"
| "carriesResponse (OperationError (Some e)) = carriesResponse e"
| "carriesResponse (OperationError None) = False"
| "carriesResponse (APIError code) = False"
| "carriesResponse (Wrapped e) = carriesResponse e"
| "carriesResponse Opaque = False"

section \<open>Unfolding ProxyS3\<close>

lemma ProxyS3_invalid:
  "splitBucketKey full = None \<Longrightarrow>
   ProxyS3 lib s3c \<sigma> r cfg full = (http_Error ''bad request'' StatusBadRequest, [], \<sigma>)"
  by (subst ProxyS3.simps) simp

lemma ProxyS3_fetched:
  assumes "splitBucketKey full = Some (bucket, key)"
    and "GetObject s3c \<sigma> (newGetObjectInput lib r bucket key) = (Inr obj, \<sigma>')"
  shows "ProxyS3 lib s3c \<sigma> r cfg full =
           (Some (writeObject lib r obj), [(newGetObjectInput lib r bucket key, Inr obj)], \<sigma>')"
  using assms by (subst ProxyS3.simps) simp

lemma ProxyS3_final:
  assumes "splitBucketKey full = Some (bucket, key)"
    and "GetObject s3c \<sigma> (newGetObjectInput lib r bucket key) = (Inl err, \<sigma>')"
    and "\<not> fallbackGuard cfg full (s3ErrorToStatus err)"
  shows "ProxyS3 lib s3c \<sigma> r cfg full =
           (http_Error (StatusText (s3ErrorToStatus err)) (s3ErrorToStatus err),
            [(newGetObjectInput lib r bucket key, Inl err)], \<sigma>')"
  using assms by (subst ProxyS3.simps) (auto simp: fallbackGuard_def spaObjectPath_def Let_def)

lemma ProxyS3_retry:
  assumes "splitBucketKey full = Some (bucket, key)"
    and "GetObject s3c \<sigma> (newGetObjectInput lib r bucket key) = (Inl err, \<sigma>')"
    and "fallbackGuard cfg full (s3ErrorToStatus err)"
  shows "ProxyS3 lib s3c \<sigma> r cfg full =
           (case ProxyS3 lib s3c \<sigma>' r cfg (spaObjectPath cfg) of
              (resp, calls, \<sigma>'') \<Rightarrow>
                (resp, (newGetObjectInput lib r bucket key, Inl err) # calls, \<sigma>''))"
  using assms by (subst ProxyS3.simps) (auto simp: fallbackGuard_def spaObjectPath_def Let_def)

lemma fallbackGuard_spaObjectPath: "\<not> fallbackGuard cfg (spaObjectPath cfg) status"
  by (simp add: fallbackGuard_def)

text \<open>Called with the SPA entry object path, \<^verbatim>\<open>ProxyS3\<close> does not call itself.\<close>

lemma ProxyS3_spaObjectPath:
  "ProxyS3 lib s3c \<sigma> r cfg (spaObjectPath cfg) =
     (case splitBucketKey (spaObjectPath cfg) of
        None \<Rightarrow> (http_Error ''bad request'' StatusBadRequest, [], \<sigma>)
      | Some (bucket, key) \<Rightarrow>
          (case GetObject s3c \<sigma> (newGetObjectInput lib r bucket key) of
             (Inl err, \<sigma>') \<Rightarrow>
               (http_Error (StatusText (s3ErrorToStatus err)) (s3ErrorToStatus err),
                [(newGetObjectInput lib r bucket key, Inl err)], \<sigma>')
           | (Inr obj, \<sigma>') \<Rightarrow>
               (Some (writeObject lib r obj),
                [(newGetObjectInput lib r bucket key, Inr obj)], \<sigma>')))"
proof (cases "splitBucketKey (spaObjectPath cfg)")
  case None
  then show ?thesis by (simp add: ProxyS3_invalid)
next
  case (Some bk)
  obtain bucket key where bk: "bk = (bucket, key)" by (cases bk)
  obtain res \<sigma>' where g: "GetObject s3c \<sigma> (newGetObjectInput lib r bucket key) = (res, \<sigma>')"
    by (cases "GetObject s3c \<sigma> (newGetObjectInput lib r bucket key)")
  show ?thesis
  proof (cases res)
    case (Inl err)
    with Some bk g show ?thesis
      by (simp add: ProxyS3_final [OF _ _ fallbackGuard_spaObjectPath])
  next
    case (Inr obj)
    with Some bk g show ?thesis by (simp add: ProxyS3_fetched)
  qed
qed

lemma writeObject_Code: "Code (writeObject lib r obj) = StatusOK"
  by (simp add: writeObject_def Let_def)

lemma writeObject_RespBody:
  "RespBody (writeObject lib r obj) = (if Method r \<noteq> MethodHead then Body obj else [])"
  by (simp add: writeObject_def Let_def)

lemma writeObject_ContentType:
  "HeaderMap (writeObject lib r obj) ''Content-Type'' = ContentType obj"
  by (simp add: writeObject_def Let_def setHeaderFromStringPtr_def split: option.splits)

text \<open>The shapes a run can have.\<close>

lemma ProxyS3_calls_cases:
  assumes run: "ProxyS3 lib s3c \<sigma> r cfg full = (resp, calls, \<sigma>')"
  obtains
    (invalid) "splitBucketKey full = None" "calls = []" "\<sigma>' = \<sigma>"
      "resp = http_Error ''bad request'' StatusBadRequest"
  | (fetched) bucket key obj where "splitBucketKey full = Some (bucket, key)"
      "GetObject s3c \<sigma> (newGetObjectInput lib r bucket key) = (Inr obj, \<sigma>')"
      "calls = [(newGetObjectInput lib r bucket key, Inr obj)]"
      "resp = Some (writeObject lib r obj)"
  | (final) bucket key err where "splitBucketKey full = Some (bucket, key)"
      "GetObject s3c \<sigma> (newGetObjectInput lib r bucket key) = (Inl err, \<sigma>')"
      "\<not> fallbackGuard cfg full (s3ErrorToStatus err)"
      "calls = [(newGetObjectInput lib r bucket key, Inl err)]"
      "resp = http_Error (StatusText (s3ErrorToStatus err)) (s3ErrorToStatus err)"
  | (retry_invalid) bucket key err where "splitBucketKey full = Some (bucket, key)"
      "GetObject s3c \<sigma> (newGetObjectInput lib r bucket key) = (Inl err, \<sigma>')"
      "fallbackGuard cfg full (s3ErrorToStatus err)"
      "splitBucketKey (spaObjectPath cfg) = None"
      "calls = [(newGetObjectInput lib r bucket key, Inl err)]"
      "resp = http_Error ''bad request'' StatusBadRequest"
  | (retry_fetched) bucket key err \<sigma>1 b k obj where "splitBucketKey full = Some (bucket, key)"
      "GetObject s3c \<sigma> (newGetObjectInput lib r bucket key) = (Inl err, \<sigma>1)"
      "fallbackGuard cfg full (s3ErrorToStatus err)"
      "splitBucketKey (spaObjectPath cfg) = Some (b, k)"
      "GetObject s3c \<sigma>1 (newGetObjectInput lib r b k) = (Inr obj, \<sigma>')"
      "calls = [(newGetObjectInput lib r bucket key, Inl err),
                (newGetObjectInput lib r b k, Inr obj)]"
      "resp = Some (writeObject lib r obj)"
  | (retry_final) bucket key err \<sigma>1 b k err2 where "splitBucketKey full = Some (bucket, key)"
      "GetObject s3c \<sigma> (newGetObjectInput lib r bucket key) = (Inl err, \<sigma>1)"
      "fallbackGuard cfg full (s3ErrorToStatus err)"
      "splitBucketKey (spaObjectPath cfg) = Some (b, k)"
      "GetObject s3c \<sigma>1 (newGetObjectInput lib r b k) = (Inl err2, \<sigma>')"
      "calls = [(newGetObjectInput lib r bucket key, Inl err),
                (newGetObjectInput lib r b k, Inl err2)]"
      "resp = http_Error (StatusText (s3ErrorToStatus err2)) (s3ErrorToStatus err2)"
proof (cases "splitBucketKey full")
  case None
  with run invalid show ?thesis by (simp add: ProxyS3_invalid)
next
  case (Some bk)
  obtain bucket key where bk: "bk = (bucket, key)" by (cases bk)
  obtain res \<sigma>1 where g: "GetObject s3c \<sigma> (newGetObjectInput lib r bucket key) = (res, \<sigma>1)"
    by (cases "GetObject s3c \<sigma> (newGetObjectInput lib r bucket key)")
  note s = Some [unfolded bk]
  show ?thesis
  proof (cases res)
    case (Inr obj)
    with run s g fetched [of bucket key obj] show ?thesis
      by (simp add: ProxyS3_fetched)
  next
    case (Inl err)
    note g1 = g [unfolded Inl]
    show ?thesis
    proof (cases "fallbackGuard cfg full (s3ErrorToStatus err)")
      case False
      with run s g1 final [of bucket key err] show ?thesis
        by (simp add: ProxyS3_final)
    next
      case True
      note unfold = ProxyS3_retry [OF s g1 True]
      show ?thesis
      proof (cases "splitBucketKey (spaObjectPath cfg)")
        case None
        with run unfold s g1 True retry_invalid [of bucket key err] show ?thesis
          by (simp add: ProxyS3_spaObjectPath)
      next
        case (Some bk2)
        obtain b k where bk2: "bk2 = (b, k)" by (cases bk2)
        obtain res2 \<sigma>2 where g2: "GetObject s3c \<sigma>1 (newGetObjectInput lib r b k) = (res2, \<sigma>2)"
          by (cases "GetObject s3c \<sigma>1 (newGetObjectInput lib r b k)")
        note s2 = Some [unfolded bk2]
        show ?thesis
        proof (cases res2)
          case (Inr obj)
          with run unfold s g1 True s2 g2 retry_fetched [of bucket key err \<sigma>1 b k obj]
          show ?thesis by (simp add: ProxyS3_spaObjectPath)
        next
          case (Inl err2)
          with run unfold s g1 True s2 g2 retry_final [of bucket key err \<sigma>1 b k err2]
          show ?thesis by (simp add: ProxyS3_spaObjectPath)
        qed
      qed
    qed
  qed
qed

lemma newGetObjectInput_Bucket: "Bucket (newGetObjectInput lib r bucket key) = bucket"
  by (simp add: newGetObjectInput_def Let_def split: option.splits)

lemma newGetObjectInput_Key: "Key (newGetObjectInput lib r bucket key) = key"
  by (simp add: newGetObjectInput_def Let_def split: option.splits)

lemma newGetObjectInput_Range:
  "Range_hdr (newGetObjectInput lib r bucket key) =
     (if Header_Get (Header r) ''Range'' \<noteq> [] then Some (Header_Get (Header r) ''Range'')
      else None)"
  by (simp add: newGetObjectInput_def Let_def split: option.splits)

lemma newGetObjectInput_IfNoneMatch:
  "IfNoneMatch (newGetObjectInput lib r bucket key) =
     (if Header_Get (Header r) ''If-None-Match'' \<noteq> []
      then Some (Header_Get (Header r) ''If-None-Match'') else None)"
  by (simp add: newGetObjectInput_def Let_def split: option.splits)

lemma newGetObjectInput_IfMatch:
  "IfMatch (newGetObjectInput lib r bucket key) =
     (if Header_Get (Header r) ''If-Match'' \<noteq> []
      then Some (Header_Get (Header r) ''If-Match'') else None)"
  by (simp add: newGetObjectInput_def Let_def split: option.splits)

lemma newGetObjectInput_IfModifiedSince:
  "IfModifiedSince (newGetObjectInput lib r bucket key) =
     (if Header_Get (Header r) ''If-Modified-Since'' \<noteq> []
      then ParseTime lib (Header_Get (Header r) ''If-Modified-Since'') else None)"
  by (simp add: newGetObjectInput_def Let_def split: option.splits)

lemma newGetObjectInput_IfUnmodifiedSince:
  "IfUnmodifiedSince (newGetObjectInput lib r bucket key) =
     (if Header_Get (Header r) ''If-Unmodified-Since'' \<noteq> []
      then ParseTime lib (Header_Get (Header r) ''If-Unmodified-Since'') else None)"
  by (simp add: newGetObjectInput_def Let_def split: option.splits)

lemmas newGetObjectInput_fields =
  newGetObjectInput_Bucket newGetObjectInput_Key newGetObjectInput_Range
  newGetObjectInput_IfNoneMatch newGetObjectInput_IfMatch
  newGetObjectInput_IfModifiedSince newGetObjectInput_IfUnmodifiedSince

lemma run_triple:
  "ProxyS3 lib s3c \<sigma> r cfg full =
     (response_of (ProxyS3 lib s3c \<sigma> r cfg full), calls_of (ProxyS3 lib s3c \<sigma> r cfg full),
      store_of (ProxyS3 lib s3c \<sigma> r cfg full))"
  by (simp add: response_of_def calls_of_def store_of_def)

section \<open>Paths that do not split into bucket and key\<close>

lemma IndexByte_takeWhile:
  "IndexByte xs c = (if c \<in> set xs then int (length (takeWhile (\<lambda>x. x \<noteq> c) xs)) else -1)"
  by (induction xs) (auto simp: Let_def)

text \<open>
  \<^verbatim>\<open>ProxyS3\<close> finds no bucket and key exactly when the path, after its leading slash,
  is not a non-empty bucket without a slash, a slash, and a non-empty key.
\<close>

lemma splitBucketKey_None_iff:
  "splitBucketKey full = None \<longleftrightarrow>
     \<not> (\<exists>bucket key. TrimPrefix full ''/'' = bucket @ ''/'' @ key \<and> bucket \<noteq> []
           \<and> CHR ''/'' \<notin> set bucket \<and> key \<noteq> [])"
proof -
  define path where "path = TrimPrefix full ''/''"
  let ?b = "takeWhile (\<lambda>x. x \<noteq> CHR ''/'') path"
  let ?k = "dropWhile (\<lambda>x. x \<noteq> CHR ''/'') path"
  have none: "splitBucketKey full = None \<longleftrightarrow>
      (CHR ''/'' \<notin> set path \<or> ?b = [] \<or> length path \<le> length ?b + 1)"
    by (auto simp: splitBucketKey_def Let_def path_def [symmetric] IndexByte_takeWhile)
  have ex: "(\<exists>bucket key. path = bucket @ ''/'' @ key \<and> bucket \<noteq> []
           \<and> CHR ''/'' \<notin> set bucket \<and> key \<noteq> []) \<longleftrightarrow>
      (CHR ''/'' \<in> set path \<and> ?b \<noteq> [] \<and> length ?b + 1 < length path)"
  proof
    assume "\<exists>bucket key. path = bucket @ ''/'' @ key \<and> bucket \<noteq> []
           \<and> CHR ''/'' \<notin> set bucket \<and> key \<noteq> []"
    then obtain bucket key where p: "path = bucket @ ''/'' @ key" "bucket \<noteq> []"
      "CHR ''/'' \<notin> set bucket" "key \<noteq> []" by blast
    have "?b = bucket" using p(1,3) by (auto simp: takeWhile_tail)
    with p show "CHR ''/'' \<in> set path \<and> ?b \<noteq> [] \<and> length ?b + 1 < length path"
      by auto
  next
    assume a: "CHR ''/'' \<in> set path \<and> ?b \<noteq> [] \<and> length ?b + 1 < length path"
    then have "?k \<noteq> []" by (auto simp: dropWhile_eq_Nil_conv)
    then obtain key where k: "?k = CHR ''/'' # key"
      using hd_dropWhile [of "\<lambda>x. x \<noteq> CHR ''/''" path] by (cases ?k) auto
    have split: "path = ?b @ ''/'' @ key"
      using takeWhile_dropWhile_id [of "\<lambda>x. x \<noteq> CHR ''/''" path] k by simp
    have "length path = length ?b + 1 + length key"
      by (subst split) simp
    with a have "key \<noteq> []" by auto
    moreover have "CHR ''/'' \<notin> set ?b" by (auto dest: set_takeWhileD)
    ultimately show "\<exists>bucket key. path = bucket @ ''/'' @ key \<and> bucket \<noteq> []
           \<and> CHR ''/'' \<notin> set bucket \<and> key \<noteq> []"
      using a split by blast
  qed
  show ?thesis
    unfolding none path_def [symmetric] ex by auto
qed

text \<open>
  C6.  Take the full object path without its leading slash.  If it is not of the form
  bucket, slash, key, where the bucket is non-empty and holds no slash (so the slash is
  the first one) and the key is non-empty, then \<^verbatim>\<open>ProxyS3\<close> answers 400 with the body
  \<^verbatim>\<open>bad request\<close>, calls \<open>GetObject\<close> not once, and leaves the store as it was.  This
  covers the path without a separator, the empty bucket and the empty key.
\<close>

theorem invalid_path_bad_request:
  assumes "\<not> (\<exists>bucket key. TrimPrefix full ''/'' = bucket @ ''/'' @ key \<and> bucket \<noteq> []
                 \<and> CHR ''/'' \<notin> set bucket \<and> key \<noteq> [])"
  shows "ProxyS3 lib s3c \<sigma> r cfg full =
           (Some \<lparr>Code = 400,
                  HeaderMap = [''Content-Type'' \<mapsto> ''text/plain; charset=utf-8'',
                               ''X-Content-Type-Options'' \<mapsto> ''nosniff''],
                  RespBody = ''bad request'' @ [CHR 0x0A]\<rparr>, [], \<sigma>)"
proof -
  from assms have "splitBucketKey full = None"
    by (simp only: splitBucketKey_None_iff not_False_eq_True)
  then show ?thesis by (simp add: ProxyS3_invalid http_Error_def)
qed

theorem invalid_path_bad_request_witness:
  "\<not> (\<exists>bucket key. TrimPrefix ''/bucket/'' ''/'' = bucket @ ''/'' @ key \<and> bucket \<noteq> []
         \<and> CHR ''/'' \<notin> set bucket \<and> key \<noteq> [])
   \<and> ProxyS3 exampleLib emptyStore () (getRequest ''/'') defaultConfig ''/bucket/'' =
       (Some \<lparr>Code = 400,
              HeaderMap = [''Content-Type'' \<mapsto> ''text/plain; charset=utf-8'',
                           ''X-Content-Type-Options'' \<mapsto> ''nosniff''],
              RespBody = ''bad request'' @ [CHR 0x0A]\<rparr>, [], ())"
proof -
  have n: "splitBucketKey ''/bucket/'' = None"
    by (simp add: splitBucketKey_def TrimPrefix_def HasPrefix_def Let_def)
  have h: "\<not> (\<exists>bucket key. TrimPrefix ''/bucket/'' ''/'' = bucket @ ''/'' @ key \<and> bucket \<noteq> []
         \<and> CHR ''/'' \<notin> set bucket \<and> key \<noteq> [])"
    using n unfolding splitBucketKey_None_iff .
  show ?thesis
    by (rule conjI [OF h invalid_path_bad_request [OF h]])
qed

section \<open>The status translation\<close>

text \<open>
  What \<^verbatim>\<open>errors.As\<close> and \<^verbatim>\<open>errors.Is\<close> find in an error they also find in the error
  inside its first \<^verbatim>\<open>OperationError\<close>, since the deadline sentinel and the API errors end
  a chain.
\<close>

lemma inner_errorsAsAPIError:
  "errorsAsOperationError err = Some (Some inner) \<Longrightarrow> errorsAsAPIError err = errorsAsAPIError inner"
  by (induction err rule: errorsAsOperationError.induct) auto

lemma inner_errorsIsDeadlineExceeded:
  "errorsAsOperationError err = Some (Some inner) \<Longrightarrow>
   errorsIsDeadlineExceeded err = errorsIsDeadlineExceeded inner"
  by (induction err rule: errorsAsOperationError.induct) auto

lemma inner_carriesResponse:
  "errorsAsOperationError err = Some (Some inner) \<Longrightarrow> \<not> carriesResponse err \<Longrightarrow>
   \<not> carriesResponse inner"
  by (induction err rule: carriesResponse.induct) auto

lemma no_response_errorsAsResponseError:
  "\<not> carriesResponse err \<Longrightarrow> errorsAsResponseError err \<noteq> Some (Some code)"
  by (induction err rule: carriesResponse.induct) auto

lemma inner_categoryOf:
  "errorsAsOperationError err = Some (Some inner) \<Longrightarrow> categoryOf err = categoryOf inner"
  by (simp add: categoryOf_def inner_errorsAsAPIError inner_errorsIsDeadlineExceeded)

lemma deadline_status:
  "errorsIsDeadlineExceeded err \<Longrightarrow> s3ErrorToStatus err = StatusGatewayTimeout"
  by (subst s3ErrorToStatus.simps) simp

lemma switch_category:
  "\<not> errorsIsDeadlineExceeded err \<Longrightarrow>
   (case errorsAsAPIError err of
      Some code \<Rightarrow> (case errorCodeSwitch code of Some st \<Rightarrow> st | None \<Rightarrow> StatusBadGateway)
    | None \<Rightarrow> StatusBadGateway) = spec_categoryStatus (categoryOf err)"
  by (simp add: categoryOf_def errorCodeSwitch_def split: option.splits)

lemma inner_size:
  "errorsAsOperationError err = Some (Some inner) \<Longrightarrow> size inner < size err"
  by (induction err rule: errorsAsOperationError.induct) auto

lemma no_response_status:
  "\<not> carriesResponse err \<Longrightarrow> s3ErrorToStatus err = spec_categoryStatus (categoryOf err)"
proof (induction "size err" arbitrary: err rule: less_induct)
  case less
  show ?case
  proof (cases "errorsIsDeadlineExceeded err")
    case True
    then show ?thesis by (simp add: deadline_status categoryOf_def)
  next
    case False
    have nr: "errorsAsResponseError err \<noteq> Some (Some code)" for code
      using less.prems by (rule no_response_errorsAsResponseError)
    show ?thesis
    proof (cases "\<exists>inner. errorsAsOperationError err = Some (Some inner)")
      case True
      then obtain inner where op: "errorsAsOperationError err = Some (Some inner)" by blast
      have "s3ErrorToStatus err = s3ErrorToStatus inner"
        using False nr op by (subst s3ErrorToStatus.simps) (simp split: option.splits)
      also have "\<dots> = spec_categoryStatus (categoryOf inner)"
        using less.hyps [OF inner_size [OF op]] inner_carriesResponse [OF op less.prems] .
      finally show ?thesis by (simp add: inner_categoryOf [OF op])
    next
      case no_inner: False
      have "s3ErrorToStatus err =
          (case errorsAsAPIError err of
             Some code \<Rightarrow> (case errorCodeSwitch code of Some st \<Rightarrow> st | None \<Rightarrow> StatusBadGateway)
           | None \<Rightarrow> StatusBadGateway)"
        using False nr no_inner by (subst s3ErrorToStatus.simps) (simp split: option.splits)
      then show ?thesis by (simp only: switch_category [OF False])
    qed
  qed
qed

text \<open>
  C3, as the code has it.  An error that wraps \<^verbatim>\<open>context.DeadlineExceeded\<close> is
  translated to 504, whatever else it holds.  An error none of whose
  \<^verbatim>\<open>ResponseError\<close>s has a response is translated to the status that the table gives
  for its category: 504 for the deadline, 404 for the not-found codes, 403 for the
  access-denied, signature and credential codes, 412 for a failed precondition, 416 for
  an invalid range, 400 for the malformed-request codes, 408 for a request timeout, 503
  for slow-down and service-unavailable, 500 for an internal error, and 502 for every
  other error.  The translation is a function, so one error has one status, and it is
  total: the recursion through \<^verbatim>\<open>OperationError\<close> ends.
\<close>

theorem status_translation_by_category:
  "(errorsIsDeadlineExceeded err \<longrightarrow> s3ErrorToStatus err = 504)
   \<and> (\<not> carriesResponse err \<longrightarrow> s3ErrorToStatus err = spec_categoryStatus (categoryOf err))"
  by (simp add: deadline_status no_response_status)

theorem status_translation_by_category_witness:
  "errorsIsDeadlineExceeded (Wrapped DeadlineExceeded)
   \<and> s3ErrorToStatus (Wrapped DeadlineExceeded) = 504
   \<and> \<not> carriesResponse (OperationError (Some (APIError ''SlowDown'')))
   \<and> s3ErrorToStatus (OperationError (Some (APIError ''SlowDown''))) = 503
   \<and> categoryOf (OperationError (Some (APIError ''SlowDown''))) = UnavailableCategory"
proof -
  have d: "errorsIsDeadlineExceeded (Wrapped DeadlineExceeded)" by simp
  have n: "\<not> carriesResponse (OperationError (Some (APIError ''SlowDown'')))" by simp
  have c: "categoryOf (OperationError (Some (APIError ''SlowDown''))) = UnavailableCategory"
    by (simp add: categoryOf_def)
  from status_translation_by_category [of "Wrapped DeadlineExceeded"] d
  have 1: "s3ErrorToStatus (Wrapped DeadlineExceeded) = 504" by simp
  from status_translation_by_category [of "OperationError (Some (APIError ''SlowDown''))"] n c
  have 2: "s3ErrorToStatus (OperationError (Some (APIError ''SlowDown''))) = 503" by simp
  from d 1 n 2 c show ?thesis by simp
qed

text \<open>
  C3 as it is stated does not hold for an error that carries a response: its status
  need not be the status of its category.  An unrecognizable error that is a
  \<^verbatim>\<open>ResponseError\<close> with a response of status 418 gives 418, not 502, and a
  \<^verbatim>\<open>ResponseError\<close> with a response of status 503 that wraps a \<^verbatim>\<open>NoSuchKey\<close> error
  gives 503, not 404.
\<close>

theorem status_translation_counterexample:
  "\<not> errorsIsDeadlineExceeded (ResponseError (Some 418) None)
   \<and> errorsAsAPIError (ResponseError (Some 418) None) = None
   \<and> categoryOf (ResponseError (Some 418) None) = UnrecognizedCategory
   \<and> s3ErrorToStatus (ResponseError (Some 418) None) = 418
   \<and> s3ErrorToStatus (ResponseError (Some 418) None) \<noteq> 502
   \<and> categoryOf (ResponseError (Some 503) (Some (APIError ''NoSuchKey''))) = NotFoundCategory
   \<and> s3ErrorToStatus (ResponseError (Some 503) (Some (APIError ''NoSuchKey''))) = 503
   \<and> s3ErrorToStatus (ResponseError (Some 503) (Some (APIError ''NoSuchKey''))) \<noteq> 404"
  by (simp add: s3ErrorToStatus.simps categoryOf_def)

text \<open>
  C10, as the code has it.  When the error does not wrap
  \<^verbatim>\<open>context.DeadlineExceeded\<close> and the first \<^verbatim>\<open>ResponseError\<close> of its chain has a
  response, the translation is the status code of that response, whatever the error
  code is.  Every status code is the translation of some error, so the status emitted
  is not bound to the codes of the table.
\<close>

theorem response_status_verbatim:
  "(\<not> errorsIsDeadlineExceeded err \<and> errorsAsResponseError err = Some (Some code)
      \<longrightarrow> s3ErrorToStatus err = code)
   \<and> s3ErrorToStatus (ResponseError (Some code) None) = code"
  by (simp add: s3ErrorToStatus.simps [of err] s3ErrorToStatus.simps [of "ResponseError (Some code) None"])

theorem response_status_verbatim_witness:
  "\<not> errorsIsDeadlineExceeded (OperationError (Some (ResponseError (Some 304) (Some (APIError ''NotModified'')))))
   \<and> errorsAsResponseError (OperationError (Some (ResponseError (Some 304) (Some (APIError ''NotModified''))))) = Some (Some 304)
   \<and> s3ErrorToStatus (OperationError (Some (ResponseError (Some 304) (Some (APIError ''NotModified''))))) = 304"
proof -
  let ?e = "OperationError (Some (ResponseError (Some 304) (Some (APIError ''NotModified''))))"
  have d: "\<not> errorsIsDeadlineExceeded ?e" by simp
  have r: "errorsAsResponseError ?e = Some (Some 304)" by simp
  from response_status_verbatim [of ?e 304] d r have "s3ErrorToStatus ?e = 304" by blast
  with d r show ?thesis by blast
qed

text \<open>
  C10 as it is stated does not hold: the deadline is looked at before the response.  An
  error that has a response with status 404 and wraps \<^verbatim>\<open>context.DeadlineExceeded\<close> is
  translated to 504.
\<close>

theorem response_status_counterexample:
  "errorsAsResponseError (ResponseError (Some 404) (Some DeadlineExceeded)) = Some (Some 404)
   \<and> s3ErrorToStatus (ResponseError (Some 404) (Some DeadlineExceeded)) = 504
   \<and> s3ErrorToStatus (ResponseError (Some 404) (Some DeadlineExceeded)) \<noteq> 404"
  by (simp add: s3ErrorToStatus.simps)

section \<open>The example runs, evaluated\<close>

lemma JoinPath_prefix_slash:
  "JoinPath ''/frontend-assets'' (CHR ''/'' # p) = ''/frontend-assets/'' @ p"
  by (simp add: JoinPath_def HasSuffix_def HasPrefix_def)

lemma spaObjectPath_defaultConfig: "spaObjectPath defaultConfig = ''/frontend-assets/index.html''"
  by (simp add: spaObjectPath_def defaultConfig_def JoinPath_prefix_slash)

lemma spaObjectPath_slashConfig: "spaObjectPath slashConfig = ''/frontend-assets/''"
  by (simp add: spaObjectPath_def slashConfig_def JoinPath_prefix_slash)

lemma split_unknown:
  "splitBucketKey ''/frontend-assets/data/unknown/path'' =
     Some (''frontend-assets'', ''data/unknown/path'')"
  by (simp add: splitBucketKey_def TrimPrefix_def HasPrefix_def Let_def)

lemma split_index:
  "splitBucketKey ''/frontend-assets/index.html'' = Some (''frontend-assets'', ''index.html'')"
  by (simp add: splitBucketKey_def TrimPrefix_def HasPrefix_def Let_def)

lemma split_navigation:
  "splitBucketKey ''/frontend-assets/data/chrome/navigation.json'' =
     Some (''frontend-assets'', ''data/chrome/navigation.json'')"
  by (simp add: splitBucketKey_def TrimPrefix_def HasPrefix_def Let_def)

lemma split_slash: "splitBucketKey ''/frontend-assets/'' = None"
  by (simp add: splitBucketKey_def TrimPrefix_def HasPrefix_def Let_def)

lemma status_NoSuchKey: "s3ErrorToStatus (APIError ''NoSuchKey'') = 404"
  by (simp add: s3ErrorToStatus.simps errorCodeSwitch_def)

lemma StatusText_404: "StatusText 404 = ''Not Found''"
  by (simp add: StatusText_def statusTextTable_def)

lemma GetObject_emptyStore: "GetObject emptyStore \<sigma> inp = (Inl (APIError ''NoSuchKey''), \<sigma>)"
  by (simp add: emptyStore_def)

lemma GetObject_assetStore_index:
  "GetObject assetStore \<sigma> (newGetObjectInput lib r ''frontend-assets'' ''index.html'') =
     (Inr indexObject, \<sigma>)"
  by (simp add: assetStore_def newGetObjectInput_Bucket newGetObjectInput_Key)

lemma GetObject_assetStore_navigation:
  "GetObject assetStore \<sigma>
     (newGetObjectInput lib r ''frontend-assets'' ''data/chrome/navigation.json'') =
     (Inr navigationObject, \<sigma>)"
  by (simp add: assetStore_def newGetObjectInput_Bucket newGetObjectInput_Key)

lemma GetObject_assetStore_unknown:
  "GetObject assetStore \<sigma>
     (newGetObjectInput lib r ''frontend-assets'' ''data/unknown/path'') =
     (Inl (APIError ''NoSuchKey''), \<sigma>)"
  by (simp add: assetStore_def newGetObjectInput_Bucket newGetObjectInput_Key)

lemma guard_unknown_default:
  "fallbackGuard defaultConfig ''/frontend-assets/data/unknown/path''
     (s3ErrorToStatus (APIError ''NoSuchKey''))"
  unfolding fallbackGuard_def spaObjectPath_defaultConfig status_NoSuchKey
  by (simp add: defaultConfig_def)

lemma guard_unknown_slash:
  "fallbackGuard slashConfig ''/frontend-assets/data/unknown/path''
     (s3ErrorToStatus (APIError ''NoSuchKey''))"
  unfolding fallbackGuard_def spaObjectPath_slashConfig status_NoSuchKey
  by (simp add: slashConfig_def)

lemma dataPath_unknown:
  "URL_Path r = ''/unknown/path'' \<Longrightarrow> BucketPathPrefix cfg = ''/frontend-assets'' \<Longrightarrow>
   dataPath cfg r = ''/frontend-assets/data/unknown/path''"
  by (simp add: dataPath_def JoinPath_prefix_slash)

text \<open>The three kinds of example runs, evaluated.\<close>

lemmas ProxyS3_default_spa =
  ProxyS3_spaObjectPath [where cfg = defaultConfig, unfolded spaObjectPath_defaultConfig]

lemmas ProxyS3_slash_spa =
  ProxyS3_spaObjectPath [where cfg = slashConfig, unfolded spaObjectPath_slashConfig]

lemma run_empty_default:
  "ProxyS3 exampleLib emptyStore () r defaultConfig ''/frontend-assets/data/unknown/path'' =
     (http_Error ''Not Found'' 404,
      [(newGetObjectInput exampleLib r ''frontend-assets'' ''data/unknown/path'',
        Inl (APIError ''NoSuchKey'')),
       (newGetObjectInput exampleLib r ''frontend-assets'' ''index.html'',
        Inl (APIError ''NoSuchKey''))], ())"
  by (simp add: ProxyS3_retry [OF split_unknown GetObject_emptyStore guard_unknown_default]
      spaObjectPath_defaultConfig ProxyS3_default_spa split_index GetObject_emptyStore
      status_NoSuchKey StatusText_404)

lemma run_asset_default:
  "ProxyS3 exampleLib assetStore () r defaultConfig ''/frontend-assets/data/unknown/path'' =
     (Some (writeObject exampleLib r indexObject),
      [(newGetObjectInput exampleLib r ''frontend-assets'' ''data/unknown/path'',
        Inl (APIError ''NoSuchKey'')),
       (newGetObjectInput exampleLib r ''frontend-assets'' ''index.html'',
        Inr indexObject)], ())"
  by (simp add: ProxyS3_retry [OF split_unknown GetObject_assetStore_unknown guard_unknown_default]
      spaObjectPath_defaultConfig ProxyS3_default_spa split_index GetObject_assetStore_index)

lemma run_empty_slash:
  "ProxyS3 exampleLib emptyStore () r slashConfig ''/frontend-assets/data/unknown/path'' =
     (http_Error ''bad request'' 400,
      [(newGetObjectInput exampleLib r ''frontend-assets'' ''data/unknown/path'',
        Inl (APIError ''NoSuchKey''))], ())"
  by (simp add: ProxyS3_retry [OF split_unknown GetObject_emptyStore guard_unknown_slash]
      spaObjectPath_slashConfig ProxyS3_slash_spa split_slash)

lemma missingAssetRun_eq:
  "missingAssetRun =
     ProxyS3 exampleLib emptyStore () (getRequest ''/unknown/path'') defaultConfig
       ''/frontend-assets/data/unknown/path''"
  by (simp add: missingAssetRun_def dataHandler_def dataPath_unknown getRequest_def defaultConfig_def)

lemma conditionalRun_eq:
  "conditionalRun =
     ProxyS3 exampleLib emptyStore () (conditionalRequest ''/unknown/path'') defaultConfig
       ''/frontend-assets/data/unknown/path''"
  by (simp add: conditionalRun_def dataHandler_def dataPath_unknown conditionalRequest_def
      defaultConfig_def)

lemma spaFallbackRun_eq:
  "spaFallbackRun =
     ProxyS3 exampleLib assetStore () (getRequest ''/unknown/path'') defaultConfig
       ''/frontend-assets/data/unknown/path''"
  by (simp add: spaFallbackRun_def dataHandler_def dataPath_unknown getRequest_def defaultConfig_def)

lemma spaFallbackHeadRun_eq:
  "spaFallbackHeadRun =
     ProxyS3 exampleLib assetStore () (headRequest ''/unknown/path'') defaultConfig
       ''/frontend-assets/data/unknown/path''"
  by (simp add: spaFallbackHeadRun_def dataHandler_def dataPath_unknown headRequest_def
      defaultConfig_def)

lemma slashRun_eq:
  "slashRun =
     ProxyS3 exampleLib emptyStore () (getRequest ''/unknown/path'') slashConfig
       ''/frontend-assets/data/unknown/path''"
  by (simp add: slashRun_def dataHandler_def dataPath_unknown getRequest_def slashConfig_def)

lemma conditionalRequest_inputs:
  "Range_hdr (newGetObjectInput exampleLib (conditionalRequest p) bucket key) = Some ''bytes=0-99''"
  "IfNoneMatch (newGetObjectInput exampleLib (conditionalRequest p) bucket key) = Some ''etag-1''"
  "IfMatch (newGetObjectInput exampleLib (conditionalRequest p) bucket key) = Some ''etag-2''"
  "IfModifiedSince (newGetObjectInput exampleLib (conditionalRequest p) bucket key) =
     Some 1445412480"
  "IfUnmodifiedSince (newGetObjectInput exampleLib (conditionalRequest p) bucket key) =
     Some 1445412480"
  by (simp_all add: newGetObjectInput_fields conditionalRequest_def Header_Get_def exampleLib_def)

lemma appsPath_navigation:
  "URL_Path r = ''/apps/chrome/navigation.json'' \<Longrightarrow> BucketPathPrefix cfg = ''/frontend-assets'' \<Longrightarrow>
   appsPath cfg r = ''/frontend-assets/data/chrome/navigation.json''"
  by (simp add: appsPath_def TrimPrefix_def HasPrefix_def JoinPath_prefix_slash)

lemma navigationRun_eval:
  "navigationRun =
     (Some (writeObject exampleLib (getRequest ''/apps/chrome/navigation.json'') navigationObject),
      [(newGetObjectInput exampleLib (getRequest ''/apps/chrome/navigation.json'')
          ''frontend-assets'' ''data/chrome/navigation.json'', Inr navigationObject)], ())"
proof -
  have "appsPath defaultConfig (getRequest ''/apps/chrome/navigation.json'') =
      ''/frontend-assets/data/chrome/navigation.json''"
    by (rule appsPath_navigation) (simp_all add: getRequest_def defaultConfig_def)
  then show ?thesis
    by (simp add: navigationRun_def appsHandler_def
        ProxyS3_fetched [OF split_navigation GetObject_assetStore_navigation])
qed

section \<open>The responses and the fetches of ProxyS3\<close>

text \<open>
  C7.  Whenever a call of \<open>GetObject\<close> in a run of \<^verbatim>\<open>ProxyS3\<close> returns an object, be
  it the first fetch or the fallback fetch, the response has status 200; its body is
  empty when the method of the request is HEAD, whatever the object's stream holds, and
  is the whole of the object's stream when the method is GET.
\<close>

theorem fetched_status_and_body:
  assumes "(inp, Inr obj) \<in> set (calls_of (ProxyS3 lib s3c \<sigma> r cfg full))"
  shows "\<exists>w. response_of (ProxyS3 lib s3c \<sigma> r cfg full) = Some w \<and> Code w = 200
           \<and> (Method r = ''HEAD'' \<longrightarrow> RespBody w = [])
           \<and> (Method r = ''GET'' \<longrightarrow> RespBody w = Body obj)"
proof -
  have "response_of (ProxyS3 lib s3c \<sigma> r cfg full) = Some (writeObject lib r obj)"
    using run_triple [of lib s3c \<sigma> r cfg full] assms
    by (cases rule: ProxyS3_calls_cases) auto
  then show ?thesis
    by (simp add: writeObject_Code writeObject_RespBody MethodHead_def)
qed

theorem fetched_status_and_body_witness:
  "(newGetObjectInput exampleLib (getRequest ''/unknown/path'') ''frontend-assets'' ''index.html'',
      Inr indexObject) \<in> set (calls_of spaFallbackRun)
   \<and> Method (getRequest ''/unknown/path'') = ''GET''
   \<and> map_option Code (response_of spaFallbackRun) = Some 200
   \<and> map_option RespBody (response_of spaFallbackRun) = Some (Body indexObject)
   \<and> (newGetObjectInput exampleLib (headRequest ''/unknown/path'') ''frontend-assets'' ''index.html'',
      Inr indexObject) \<in> set (calls_of spaFallbackHeadRun)
   \<and> Method (headRequest ''/unknown/path'') = ''HEAD''
   \<and> map_option Code (response_of spaFallbackHeadRun) = Some 200
   \<and> map_option RespBody (response_of spaFallbackHeadRun) = Some []"
proof -
  let ?g = "getRequest ''/unknown/path''" and ?h = "headRequest ''/unknown/path''"
  let ?full = "''/frontend-assets/data/unknown/path''"
  have g1: "(newGetObjectInput exampleLib ?g ''frontend-assets'' ''index.html'', Inr indexObject)
      \<in> set (calls_of (ProxyS3 exampleLib assetStore () ?g defaultConfig ?full))"
    by (simp add: run_asset_default calls_of_def)
  have h1: "(newGetObjectInput exampleLib ?h ''frontend-assets'' ''index.html'', Inr indexObject)
      \<in> set (calls_of (ProxyS3 exampleLib assetStore () ?h defaultConfig ?full))"
    by (simp add: run_asset_default calls_of_def)
  have g2: "Method ?g = ''GET''" by (simp add: getRequest_def)
  have h2: "Method ?h = ''HEAD''" by (simp add: headRequest_def)
  from fetched_status_and_body [OF g1] g2
  have g3: "map_option Code (response_of spaFallbackRun) = Some 200
      \<and> map_option RespBody (response_of spaFallbackRun) = Some (Body indexObject)"
    unfolding spaFallbackRun_eq by auto
  from fetched_status_and_body [OF h1] h2
  have h3: "map_option Code (response_of spaFallbackHeadRun) = Some 200
      \<and> map_option RespBody (response_of spaFallbackHeadRun) = Some []"
    unfolding spaFallbackHeadRun_eq by auto
  from g1 g2 g3 h1 h2 h3 show ?thesis
    unfolding spaFallbackRun_eq spaFallbackHeadRun_eq by simp
qed

text \<open>
  C9.  When the first fetch fails with an error translated to 403 or 404 and the full
  object path is the SPA entry object path \<^verbatim>\<open>JoinPath(prefix, spa)\<close>, or no SPA entry
  path is configured, the run has that one call of \<open>GetObject\<close> and no other, and the
  response carries the translated status (with the status text as its body).
\<close>

theorem no_fallback_at_spa_path_or_unconfigured:
  assumes "splitBucketKey full = Some (bucket, key)"
    and "GetObject s3c \<sigma> (newGetObjectInput lib r bucket key) = (Inl err, \<sigma>')"
    and "s3ErrorToStatus err = 403 \<or> s3ErrorToStatus err = 404"
    and "full = JoinPath (BucketPathPrefix cfg) (SPAEntrypointPath cfg) \<or> SPAEntrypointPath cfg = []"
  shows "ProxyS3 lib s3c \<sigma> r cfg full =
           (Some \<lparr>Code = s3ErrorToStatus err,
                  HeaderMap = [''Content-Type'' \<mapsto> ''text/plain; charset=utf-8'',
                               ''X-Content-Type-Options'' \<mapsto> ''nosniff''],
                  RespBody = StatusText (s3ErrorToStatus err) @ [CHR 0x0A]\<rparr>,
            [(newGetObjectInput lib r bucket key, Inl err)], \<sigma>')"
proof -
  from assms(4) have "\<not> fallbackGuard cfg full (s3ErrorToStatus err)"
    by (auto simp: fallbackGuard_def spaObjectPath_def)
  from ProxyS3_final [OF assms(1,2) this] assms(3) show ?thesis
    by (auto simp: http_Error_def)
qed

theorem no_fallback_at_spa_path_or_unconfigured_witness:
  "splitBucketKey ''/frontend-assets/index.html'' = Some (''frontend-assets'', ''index.html'')
   \<and> GetObject emptyStore ()
        (newGetObjectInput exampleLib (getRequest ''/index.html'') ''frontend-assets'' ''index.html'') =
       (Inl (APIError ''NoSuchKey''), ())
   \<and> s3ErrorToStatus (APIError ''NoSuchKey'') = 404
   \<and> ''/frontend-assets/index.html'' =
       JoinPath (BucketPathPrefix defaultConfig) (SPAEntrypointPath defaultConfig)
   \<and> ProxyS3 exampleLib emptyStore () (getRequest ''/index.html'') defaultConfig
        ''/frontend-assets/index.html'' =
       (Some \<lparr>Code = 404,
              HeaderMap = [''Content-Type'' \<mapsto> ''text/plain; charset=utf-8'',
                           ''X-Content-Type-Options'' \<mapsto> ''nosniff''],
              RespBody = ''Not Found'' @ [CHR 0x0A]\<rparr>,
        [(newGetObjectInput exampleLib (getRequest ''/index.html'') ''frontend-assets''
            ''index.html'', Inl (APIError ''NoSuchKey''))], ())"
proof -
  have st: "s3ErrorToStatus (APIError ''NoSuchKey'') = 403 \<or> s3ErrorToStatus (APIError ''NoSuchKey'') = 404"
    by (simp add: status_NoSuchKey)
  have p: "''/frontend-assets/index.html'' =
       JoinPath (BucketPathPrefix defaultConfig) (SPAEntrypointPath defaultConfig)"
    using spaObjectPath_defaultConfig by (simp add: spaObjectPath_def)
  have p': "''/frontend-assets/index.html'' =
       JoinPath (BucketPathPrefix defaultConfig) (SPAEntrypointPath defaultConfig)
       \<or> SPAEntrypointPath defaultConfig = []"
    using p by (rule disjI1)
  from no_fallback_at_spa_path_or_unconfigured [OF split_index GetObject_emptyStore st p']
    split_index GetObject_emptyStore p
  show ?thesis by (simp add: status_NoSuchKey StatusText_404)
qed

text \<open>
  C8, as the code has it.  A run ends in final failure when its last fetch failed and
  no fallback is left: that fetch was the fallback fetch (the second call), or the
  fallback guard does not hold for it.  Then, for a translated status of three digits
  (the codes \<^verbatim>\<open>WriteHeader\<close> accepts), the response has that status and its body is the
  status text of the code followed by a newline; the body does not hold the number.
\<close>

theorem final_failure_response:
  assumes "calls_of (ProxyS3 lib s3c \<sigma> r cfg full) \<noteq> []"
    and "snd (last (calls_of (ProxyS3 lib s3c \<sigma> r cfg full))) = Inl err"
    and "length (calls_of (ProxyS3 lib s3c \<sigma> r cfg full)) = 2
         \<or> \<not> fallbackGuard cfg full (s3ErrorToStatus err)"
    and "100 \<le> s3ErrorToStatus err" and "s3ErrorToStatus err \<le> 999"
  shows "\<exists>w. response_of (ProxyS3 lib s3c \<sigma> r cfg full) = Some w
           \<and> Code w = s3ErrorToStatus err
           \<and> RespBody w = StatusText (s3ErrorToStatus err) @ [CHR 0x0A]"
proof -
  have "response_of (ProxyS3 lib s3c \<sigma> r cfg full) =
          http_Error (StatusText (s3ErrorToStatus err)) (s3ErrorToStatus err)"
    using run_triple [of lib s3c \<sigma> r cfg full] assms(1-3)
    by (cases rule: ProxyS3_calls_cases) auto
  with assms(4,5) show ?thesis by (simp add: http_Error_def)
qed

theorem final_failure_response_witness:
  "calls_of missingAssetRun \<noteq> []
   \<and> snd (last (calls_of missingAssetRun)) = Inl (APIError ''NoSuchKey'')
   \<and> length (calls_of missingAssetRun) = 2
   \<and> 100 \<le> s3ErrorToStatus (APIError ''NoSuchKey'')
   \<and> s3ErrorToStatus (APIError ''NoSuchKey'') \<le> 999
   \<and> map_option Code (response_of missingAssetRun) = Some 404
   \<and> map_option RespBody (response_of missingAssetRun) = Some (''Not Found'' @ [CHR 0x0A])"
proof -
  let ?run = "ProxyS3 exampleLib emptyStore () (getRequest ''/unknown/path'') defaultConfig
       ''/frontend-assets/data/unknown/path''"
  have a: "calls_of ?run \<noteq> []" by (simp add: run_empty_default calls_of_def)
  have b: "snd (last (calls_of ?run)) = Inl (APIError ''NoSuchKey'')"
    by (simp add: run_empty_default calls_of_def)
  have c: "length (calls_of ?run) = 2" by (simp add: run_empty_default calls_of_def)
  have c': "length (calls_of ?run) = 2
      \<or> \<not> fallbackGuard defaultConfig ''/frontend-assets/data/unknown/path''
            (s3ErrorToStatus (APIError ''NoSuchKey''))"
    using c by (rule disjI1)
  have d: "100 \<le> s3ErrorToStatus (APIError ''NoSuchKey'')" by (simp add: status_NoSuchKey)
  have e: "s3ErrorToStatus (APIError ''NoSuchKey'') \<le> 999" by (simp add: status_NoSuchKey)
  from final_failure_response [OF a b c' d e]
  have "map_option Code (response_of ?run) = Some 404
      \<and> map_option RespBody (response_of ?run) = Some (''Not Found'' @ [CHR 0x0A])"
    by (auto simp: status_NoSuchKey StatusText_404)
  with a b c d e show ?thesis unfolding missingAssetRun_eq by simp
qed

text \<open>
  C8 as it is stated does not hold: \<^verbatim>\<open>ProxyS3\<close> passes \<^verbatim>\<open>http.StatusText(status)\<close> alone
  to \<^verbatim>\<open>http.Error\<close>.  After two fetches that fail with \<^verbatim>\<open>NoSuchKey\<close> the status is 404
  and the body is \<^verbatim>\<open>Not Found\<close> and a newline, not \<^verbatim>\<open>404 Not Found\<close>.
\<close>

theorem final_failure_response_counterexample:
  "length (calls_of missingAssetRun) = 2
   \<and> snd (last (calls_of missingAssetRun)) = Inl (APIError ''NoSuchKey'')
   \<and> s3ErrorToStatus (APIError ''NoSuchKey'') = 404
   \<and> StatusText 404 = ''Not Found''
   \<and> map_option Code (response_of missingAssetRun) = Some 404
   \<and> map_option RespBody (response_of missingAssetRun) = Some (''Not Found'' @ [CHR 0x0A])
   \<and> map_option RespBody (response_of missingAssetRun) \<noteq> Some ''404 Not Found''"
  by (simp add: missingAssetRun_eq run_empty_default calls_of_def response_of_def
      http_Error_def status_NoSuchKey StatusText_404)

text \<open>
  C2, as the code has it.  No run of \<^verbatim>\<open>ProxyS3\<close> calls \<open>GetObject\<close> more than twice.
  When the first fetch fails, the fallback guard holds (the translated status is 403 or
  404, an SPA entry path is configured and the full path differs from the SPA entry
  object path) and the SPA entry object path splits into a bucket and a key, the run is
  exactly the first fetch followed by one fetch of that bucket and key, whatever the
  second fetch returns: there is no third.  When the guard holds and the SPA entry
  object path does not split, the first fetch is the only one and the response is 400.
\<close>

theorem at_most_two_fetches:
  "length (calls_of (ProxyS3 lib s3c \<sigma> r cfg full)) \<le> 2
   \<and> (\<forall>bucket key err \<sigma>1 b k.
        splitBucketKey full = Some (bucket, key)
        \<and> GetObject s3c \<sigma> (newGetObjectInput lib r bucket key) = (Inl err, \<sigma>1)
        \<and> fallbackGuard cfg full (s3ErrorToStatus err)
        \<and> splitBucketKey (spaObjectPath cfg) = Some (b, k)
        \<longrightarrow> calls_of (ProxyS3 lib s3c \<sigma> r cfg full) =
              [(newGetObjectInput lib r bucket key, Inl err),
               (newGetObjectInput lib r b k, fst (GetObject s3c \<sigma>1 (newGetObjectInput lib r b k)))])
   \<and> (\<forall>bucket key err \<sigma>1.
        splitBucketKey full = Some (bucket, key)
        \<and> GetObject s3c \<sigma> (newGetObjectInput lib r bucket key) = (Inl err, \<sigma>1)
        \<and> fallbackGuard cfg full (s3ErrorToStatus err)
        \<and> splitBucketKey (spaObjectPath cfg) = None
        \<longrightarrow> calls_of (ProxyS3 lib s3c \<sigma> r cfg full) = [(newGetObjectInput lib r bucket key, Inl err)]
            \<and> response_of (ProxyS3 lib s3c \<sigma> r cfg full) = http_Error ''bad request'' 400)"
proof (intro conjI allI impI)
  show "length (calls_of (ProxyS3 lib s3c \<sigma> r cfg full)) \<le> 2"
    using run_triple [of lib s3c \<sigma> r cfg full]
    by (cases rule: ProxyS3_calls_cases) auto
next
  fix bucket key err \<sigma>1 b k
  assume a: "splitBucketKey full = Some (bucket, key)
        \<and> GetObject s3c \<sigma> (newGetObjectInput lib r bucket key) = (Inl err, \<sigma>1)
        \<and> fallbackGuard cfg full (s3ErrorToStatus err)
        \<and> splitBucketKey (spaObjectPath cfg) = Some (b, k)"
  show "calls_of (ProxyS3 lib s3c \<sigma> r cfg full) =
              [(newGetObjectInput lib r bucket key, Inl err),
               (newGetObjectInput lib r b k, fst (GetObject s3c \<sigma>1 (newGetObjectInput lib r b k)))]"
    using run_triple [of lib s3c \<sigma> r cfg full] a
    by (cases rule: ProxyS3_calls_cases) auto
next
  fix bucket key err \<sigma>1
  assume a: "splitBucketKey full = Some (bucket, key)
        \<and> GetObject s3c \<sigma> (newGetObjectInput lib r bucket key) = (Inl err, \<sigma>1)
        \<and> fallbackGuard cfg full (s3ErrorToStatus err)
        \<and> splitBucketKey (spaObjectPath cfg) = None"
  show "calls_of (ProxyS3 lib s3c \<sigma> r cfg full) = [(newGetObjectInput lib r bucket key, Inl err)]"
    using run_triple [of lib s3c \<sigma> r cfg full] a
    by (cases rule: ProxyS3_calls_cases) auto
  show "response_of (ProxyS3 lib s3c \<sigma> r cfg full) = http_Error ''bad request'' 400"
    using run_triple [of lib s3c \<sigma> r cfg full] a
    by (cases rule: ProxyS3_calls_cases) auto
qed

theorem at_most_two_fetches_witness:
  "splitBucketKey ''/frontend-assets/data/unknown/path'' =
       Some (''frontend-assets'', ''data/unknown/path'')
   \<and> GetObject emptyStore ()
        (newGetObjectInput exampleLib (getRequest ''/unknown/path'') ''frontend-assets''
           ''data/unknown/path'') = (Inl (APIError ''NoSuchKey''), ())
   \<and> fallbackGuard defaultConfig ''/frontend-assets/data/unknown/path''
        (s3ErrorToStatus (APIError ''NoSuchKey''))
   \<and> splitBucketKey (spaObjectPath defaultConfig) = Some (''frontend-assets'', ''index.html'')
   \<and> length (calls_of missingAssetRun) \<le> 2
   \<and> calls_of missingAssetRun =
       [(newGetObjectInput exampleLib (getRequest ''/unknown/path'') ''frontend-assets''
           ''data/unknown/path'', Inl (APIError ''NoSuchKey'')),
        (newGetObjectInput exampleLib (getRequest ''/unknown/path'') ''frontend-assets''
           ''index.html'', Inl (APIError ''NoSuchKey''))]
   \<and> fallbackGuard slashConfig ''/frontend-assets/data/unknown/path''
        (s3ErrorToStatus (APIError ''NoSuchKey''))
   \<and> splitBucketKey (spaObjectPath slashConfig) = None
   \<and> calls_of slashRun =
       [(newGetObjectInput exampleLib (getRequest ''/unknown/path'') ''frontend-assets''
           ''data/unknown/path'', Inl (APIError ''NoSuchKey''))]
   \<and> response_of slashRun = http_Error ''bad request'' 400"
proof -
  let ?r = "getRequest ''/unknown/path''"
  let ?full = "''/frontend-assets/data/unknown/path''"
  note d = at_most_two_fetches [of exampleLib emptyStore "()" ?r defaultConfig ?full]
  note s = at_most_two_fetches [of exampleLib emptyStore "()" ?r slashConfig ?full]
  have sd: "splitBucketKey (spaObjectPath defaultConfig) = Some (''frontend-assets'', ''index.html'')"
    by (simp only: spaObjectPath_defaultConfig split_index)
  have ss: "splitBucketKey (spaObjectPath slashConfig) = None"
    by (simp only: spaObjectPath_slashConfig split_slash)
  have g: "GetObject emptyStore () (newGetObjectInput exampleLib ?r ''frontend-assets''
           ''data/unknown/path'') = (Inl (APIError ''NoSuchKey''), ())"
    by (rule GetObject_emptyStore)
  have len: "length (calls_of (ProxyS3 exampleLib emptyStore () ?r defaultConfig ?full)) \<le> 2"
    using d by (rule conjunct1)
  have two: "calls_of (ProxyS3 exampleLib emptyStore () ?r defaultConfig ?full) =
       [(newGetObjectInput exampleLib ?r ''frontend-assets'' ''data/unknown/path'',
         Inl (APIError ''NoSuchKey'')),
        (newGetObjectInput exampleLib ?r ''frontend-assets'' ''index.html'',
         fst (GetObject emptyStore () (newGetObjectInput exampleLib ?r ''frontend-assets''
           ''index.html'')))]"
    by (rule d [THEN conjunct2, THEN conjunct1, rule_format,
          OF conjI [OF split_unknown conjI [OF g conjI [OF guard_unknown_default sd]]]])
  have one: "calls_of (ProxyS3 exampleLib emptyStore () ?r slashConfig ?full) =
       [(newGetObjectInput exampleLib ?r ''frontend-assets'' ''data/unknown/path'',
         Inl (APIError ''NoSuchKey''))]
      \<and> response_of (ProxyS3 exampleLib emptyStore () ?r slashConfig ?full) =
          http_Error ''bad request'' 400"
    by (rule s [THEN conjunct2, THEN conjunct2, rule_format,
          OF conjI [OF split_unknown conjI [OF g conjI [OF guard_unknown_slash ss]]]])
  have two': "calls_of (ProxyS3 exampleLib emptyStore () ?r defaultConfig ?full) =
       [(newGetObjectInput exampleLib ?r ''frontend-assets'' ''data/unknown/path'',
         Inl (APIError ''NoSuchKey'')),
        (newGetObjectInput exampleLib ?r ''frontend-assets'' ''index.html'',
         Inl (APIError ''NoSuchKey''))]"
    using two by (simp only: GetObject_emptyStore fst_conv)
  show ?thesis
    unfolding missingAssetRun_eq slashRun_eq
    by (intro conjI split_unknown g guard_unknown_default sd len two' guard_unknown_slash ss
        one [THEN conjunct1] one [THEN conjunct2])
qed

text \<open>
  C2 as it is stated does not hold where it promises exactly one fallback fetch whenever
  the guard passes.  With the SPA entry path \<^verbatim>\<open>/\<close> the SPA entry object path is
  \<^verbatim>\<open>/frontend-assets/\<close>, which has no key: the first fetch fails with 404, the guard
  passes, and the run ends with 400 after that one fetch.
\<close>

theorem at_most_two_fetches_counterexample:
  "splitBucketKey ''/frontend-assets/data/unknown/path'' =
       Some (''frontend-assets'', ''data/unknown/path'')
   \<and> s3ErrorToStatus (APIError ''NoSuchKey'') = 404
   \<and> SPAEntrypointPath slashConfig \<noteq> []
   \<and> ''/frontend-assets/data/unknown/path'' \<noteq> spaObjectPath slashConfig
   \<and> map snd (calls_of slashRun) = [Inl (APIError ''NoSuchKey'')]
   \<and> length (calls_of slashRun) = 1
   \<and> map_option Code (response_of slashRun) = Some 400"
  unfolding spaObjectPath_slashConfig slashRun_eq run_empty_slash
  by (simp add: split_unknown status_NoSuchKey calls_of_def response_of_def http_Error_def
      slashConfig_def)

text \<open>
  C1, as the code has it.  In a run with a fallback fetch, the input of the fallback
  fetch has the same range and conditional fields as the input of the first fetch:
  \<^verbatim>\<open>ProxyS3\<close> calls itself with the same request and builds the input from the same
  headers.  Each of \<^verbatim>\<open>Range\<close>, \<^verbatim>\<open>If-None-Match\<close> and \<^verbatim>\<open>If-Match\<close> that is on the request
  is on the fallback fetch, and so is each of the two dates that parses.
\<close>

theorem fallback_fetch_repeats_conditional_fields:
  assumes "calls_of (ProxyS3 lib s3c \<sigma> r cfg full) = [first, second]"
  shows "Range_hdr (fst second) = Range_hdr (fst first)
       \<and> IfNoneMatch (fst second) = IfNoneMatch (fst first)
       \<and> IfMatch (fst second) = IfMatch (fst first)
       \<and> IfModifiedSince (fst second) = IfModifiedSince (fst first)
       \<and> IfUnmodifiedSince (fst second) = IfUnmodifiedSince (fst first)
       \<and> (Header_Get (Header r) ''Range'' \<noteq> [] \<longrightarrow>
            Range_hdr (fst second) = Some (Header_Get (Header r) ''Range''))
       \<and> (Header_Get (Header r) ''If-None-Match'' \<noteq> [] \<longrightarrow>
            IfNoneMatch (fst second) = Some (Header_Get (Header r) ''If-None-Match''))
       \<and> (Header_Get (Header r) ''If-Match'' \<noteq> [] \<longrightarrow>
            IfMatch (fst second) = Some (Header_Get (Header r) ''If-Match''))
       \<and> (Header_Get (Header r) ''If-Modified-Since'' \<noteq> [] \<longrightarrow>
            IfModifiedSince (fst second) = ParseTime lib (Header_Get (Header r) ''If-Modified-Since''))
       \<and> (Header_Get (Header r) ''If-Unmodified-Since'' \<noteq> [] \<longrightarrow>
            IfUnmodifiedSince (fst second) =
              ParseTime lib (Header_Get (Header r) ''If-Unmodified-Since''))"
  using run_triple [of lib s3c \<sigma> r cfg full] assms
  by (cases rule: ProxyS3_calls_cases) (auto simp: newGetObjectInput_fields)

theorem fallback_fetch_repeats_conditional_fields_witness:
  "calls_of conditionalRun =
     [(newGetObjectInput exampleLib (conditionalRequest ''/unknown/path'') ''frontend-assets''
         ''data/unknown/path'', Inl (APIError ''NoSuchKey'')),
      (newGetObjectInput exampleLib (conditionalRequest ''/unknown/path'') ''frontend-assets''
         ''index.html'', Inl (APIError ''NoSuchKey''))]
   \<and> Header_Get (Header (conditionalRequest ''/unknown/path'')) ''Range'' \<noteq> []
   \<and> Header_Get (Header (conditionalRequest ''/unknown/path'')) ''If-None-Match'' \<noteq> []
   \<and> Header_Get (Header (conditionalRequest ''/unknown/path'')) ''If-Match'' \<noteq> []
   \<and> Header_Get (Header (conditionalRequest ''/unknown/path'')) ''If-Modified-Since'' \<noteq> []
   \<and> Header_Get (Header (conditionalRequest ''/unknown/path'')) ''If-Unmodified-Since'' \<noteq> []
   \<and> Range_hdr (newGetObjectInput exampleLib (conditionalRequest ''/unknown/path'')
        ''frontend-assets'' ''index.html'') = Some ''bytes=0-99''
   \<and> IfNoneMatch (newGetObjectInput exampleLib (conditionalRequest ''/unknown/path'')
        ''frontend-assets'' ''index.html'') = Some ''etag-1''
   \<and> IfMatch (newGetObjectInput exampleLib (conditionalRequest ''/unknown/path'')
        ''frontend-assets'' ''index.html'') = Some ''etag-2''
   \<and> IfModifiedSince (newGetObjectInput exampleLib (conditionalRequest ''/unknown/path'')
        ''frontend-assets'' ''index.html'') = Some 1445412480
   \<and> IfUnmodifiedSince (newGetObjectInput exampleLib (conditionalRequest ''/unknown/path'')
        ''frontend-assets'' ''index.html'') = Some 1445412480"
proof -
  let ?r = "conditionalRequest ''/unknown/path''"
  let ?full = "''/frontend-assets/data/unknown/path''"
  let ?c1 = "(newGetObjectInput exampleLib ?r ''frontend-assets'' ''data/unknown/path'',
      Inl (APIError ''NoSuchKey'') :: go_error + nat GetObjectOutput)"
  let ?c2 = "(newGetObjectInput exampleLib ?r ''frontend-assets'' ''index.html'',
      Inl (APIError ''NoSuchKey'') :: go_error + nat GetObjectOutput)"
  have c: "calls_of (ProxyS3 exampleLib emptyStore () ?r defaultConfig ?full) = [?c1, ?c2]"
    by (simp add: run_empty_default calls_of_def)
  have h: "Header_Get (Header ?r) ''Range'' = ''bytes=0-99''"
    "Header_Get (Header ?r) ''If-None-Match'' = ''etag-1''"
    "Header_Get (Header ?r) ''If-Match'' = ''etag-2''"
    "Header_Get (Header ?r) ''If-Modified-Since'' = ''Wed, 21 Oct 2015 07:28:00 GMT''"
    "Header_Get (Header ?r) ''If-Unmodified-Since'' = ''Wed, 21 Oct 2015 07:28:00 GMT''"
    by (simp_all add: conditionalRequest_def Header_Get_def)
  have t: "ParseTime exampleLib ''Wed, 21 Oct 2015 07:28:00 GMT'' = Some 1445412480"
    by (simp add: exampleLib_def)
  note same = fallback_fetch_repeats_conditional_fields [OF c, unfolded fst_conv h t]
  have n: "''bytes=0-99'' \<noteq> []" "''etag-1'' \<noteq> []" "''etag-2'' \<noteq> []"
    "''Wed, 21 Oct 2015 07:28:00 GMT'' \<noteq> []" by simp_all
  show ?thesis
    unfolding conditionalRun_eq h
    by (intro conjI c n
        same [THEN conjunct2, THEN conjunct2, THEN conjunct2, THEN conjunct2, THEN conjunct2,
          THEN conjunct1, THEN mp, OF n(1)]
        same [THEN conjunct2, THEN conjunct2, THEN conjunct2, THEN conjunct2, THEN conjunct2,
          THEN conjunct2, THEN conjunct1, THEN mp, OF n(2)]
        same [THEN conjunct2, THEN conjunct2, THEN conjunct2, THEN conjunct2, THEN conjunct2,
          THEN conjunct2, THEN conjunct2, THEN conjunct1, THEN mp, OF n(3)]
        same [THEN conjunct2, THEN conjunct2, THEN conjunct2, THEN conjunct2, THEN conjunct2,
          THEN conjunct2, THEN conjunct2, THEN conjunct2, THEN conjunct1, THEN mp, OF n(4)]
        same [THEN conjunct2, THEN conjunct2, THEN conjunct2, THEN conjunct2, THEN conjunct2,
          THEN conjunct2, THEN conjunct2, THEN conjunct2, THEN conjunct2, THEN mp, OF n(4)])
qed

text \<open>
  C1 as it is stated does not hold: the fallback fetch is not unconditional.  For a
  request with the five headers whose first fetch fails with 404, the fallback fetch of
  \<^verbatim>\<open>index.html\<close> has all five fields set.
\<close>

theorem fallback_fetch_repeats_conditional_fields_counterexample:
  "length (calls_of conditionalRun) = 2
   \<and> snd (calls_of conditionalRun ! 0) = Inl (APIError ''NoSuchKey'')
   \<and> s3ErrorToStatus (APIError ''NoSuchKey'') = 404
   \<and> Key (fst (calls_of conditionalRun ! 1)) = ''index.html''
   \<and> Range_hdr (fst (calls_of conditionalRun ! 1)) = Some ''bytes=0-99''
   \<and> IfNoneMatch (fst (calls_of conditionalRun ! 1)) = Some ''etag-1''
   \<and> IfMatch (fst (calls_of conditionalRun ! 1)) = Some ''etag-2''
   \<and> IfModifiedSince (fst (calls_of conditionalRun ! 1)) = Some 1445412480
   \<and> IfUnmodifiedSince (fst (calls_of conditionalRun ! 1)) = Some 1445412480"
  by (simp add: conditionalRun_eq run_empty_default calls_of_def status_NoSuchKey
      conditionalRequest_inputs newGetObjectInput_Key)

text \<open>
  C4, as the code has it.  With the prefix \<^verbatim>\<open>/frontend-assets\<close> and the SPA entry path
  \<^verbatim>\<open>/index.html\<close>, the SPA entry object path is \<^verbatim>\<open>/frontend-assets/index.html\<close>: the
  two are joined with no \<^verbatim>\<open>/data\<close> between them.  Whenever the first fetch fails with a
  status of 404 or 403 and the full path is not that path, the run has two fetches and
  the second one asks the bucket \<^verbatim>\<open>frontend-assets\<close> for the key \<^verbatim>\<open>index.html\<close>.
\<close>

theorem fallback_fetch_targets_prefix_root:
  assumes "BucketPathPrefix cfg = ''/frontend-assets''"
    and "SPAEntrypointPath cfg = ''/index.html''"
    and "splitBucketKey full = Some (bucket, key)"
    and "GetObject s3c \<sigma> (newGetObjectInput lib r bucket key) = (Inl err, \<sigma>1)"
    and "s3ErrorToStatus err = 404 \<or> s3ErrorToStatus err = 403"
    and "full \<noteq> ''/frontend-assets/index.html''"
  shows "spaObjectPath cfg = ''/frontend-assets/index.html''
       \<and> length (calls_of (ProxyS3 lib s3c \<sigma> r cfg full)) = 2
       \<and> Bucket (fst (calls_of (ProxyS3 lib s3c \<sigma> r cfg full) ! 1)) = ''frontend-assets''
       \<and> Key (fst (calls_of (ProxyS3 lib s3c \<sigma> r cfg full) ! 1)) = ''index.html''"
proof -
  have spa: "spaObjectPath cfg = ''/frontend-assets/index.html''"
    by (simp add: spaObjectPath_def assms(1,2) JoinPath_prefix_slash)
  have guard: "fallbackGuard cfg full (s3ErrorToStatus err)"
    using assms(5,6) by (auto simp: fallbackGuard_def spa assms(2))
  have split: "splitBucketKey (spaObjectPath cfg) = Some (''frontend-assets'', ''index.html'')"
    by (simp only: spa split_index)
  have "calls_of (ProxyS3 lib s3c \<sigma> r cfg full) =
      [(newGetObjectInput lib r bucket key, Inl err),
       (newGetObjectInput lib r ''frontend-assets'' ''index.html'',
        fst (GetObject s3c \<sigma>1 (newGetObjectInput lib r ''frontend-assets'' ''index.html'')))]"
    using run_triple [of lib s3c \<sigma> r cfg full] assms(3,4) guard split
    by (cases rule: ProxyS3_calls_cases) auto
  then show ?thesis
    by (simp add: spa newGetObjectInput_Bucket newGetObjectInput_Key)
qed

theorem fallback_fetch_targets_prefix_root_witness:
  "BucketPathPrefix defaultConfig = ''/frontend-assets''
   \<and> SPAEntrypointPath defaultConfig = ''/index.html''
   \<and> splitBucketKey ''/frontend-assets/data/unknown/path'' =
       Some (''frontend-assets'', ''data/unknown/path'')
   \<and> GetObject assetStore ()
        (newGetObjectInput exampleLib (getRequest ''/unknown/path'') ''frontend-assets''
           ''data/unknown/path'') = (Inl (APIError ''NoSuchKey''), ())
   \<and> s3ErrorToStatus (APIError ''NoSuchKey'') = 404
   \<and> ''/frontend-assets/data/unknown/path'' \<noteq> ''/frontend-assets/index.html''
   \<and> spaObjectPath defaultConfig = ''/frontend-assets/index.html''
   \<and> length (calls_of spaFallbackRun) = 2
   \<and> Bucket (fst (calls_of spaFallbackRun ! 1)) = ''frontend-assets''
   \<and> Key (fst (calls_of spaFallbackRun ! 1)) = ''index.html''"
proof -
  have p: "BucketPathPrefix defaultConfig = ''/frontend-assets''"
    and e: "SPAEntrypointPath defaultConfig = ''/index.html''"
    by (simp_all add: defaultConfig_def)
  have st: "s3ErrorToStatus (APIError ''NoSuchKey'') = 404 \<or> s3ErrorToStatus (APIError ''NoSuchKey'') = 403"
    using status_NoSuchKey by (rule disjI1)
  have ne: "''/frontend-assets/data/unknown/path'' \<noteq> ''/frontend-assets/index.html''" by simp
  note w = fallback_fetch_targets_prefix_root
    [where lib = exampleLib and r = "getRequest ''/unknown/path''" and \<sigma> = "()"
       and s3c = assetStore,
      OF p e split_unknown GetObject_assetStore_unknown st ne]
  show ?thesis
    unfolding spaFallbackRun_eq
    by (intro conjI p e split_unknown GetObject_assetStore_unknown status_NoSuchKey ne
        w [THEN conjunct1] w [THEN conjunct2, THEN conjunct1]
        w [THEN conjunct2, THEN conjunct2, THEN conjunct1]
        w [THEN conjunct2, THEN conjunct2, THEN conjunct2])
qed

text \<open>
  C4 as it is stated does not hold: for \<^verbatim>\<open>GET /unknown/path\<close> the fallback fetch asks for
  the key \<^verbatim>\<open>index.html\<close>, not \<^verbatim>\<open>data/index.html\<close>.
\<close>

theorem fallback_fetch_targets_prefix_root_counterexample:
  "BucketPathPrefix defaultConfig = ''/frontend-assets''
   \<and> SPAEntrypointPath defaultConfig = ''/index.html''
   \<and> spaObjectPath defaultConfig = ''/frontend-assets/index.html''
   \<and> spaObjectPath defaultConfig \<noteq> ''/frontend-assets/data/index.html''
   \<and> length (calls_of spaFallbackRun) = 2
   \<and> snd (calls_of spaFallbackRun ! 0) = Inl (APIError ''NoSuchKey'')
   \<and> Bucket (fst (calls_of spaFallbackRun ! 1)) = ''frontend-assets''
   \<and> Key (fst (calls_of spaFallbackRun ! 1)) = ''index.html''
   \<and> Key (fst (calls_of spaFallbackRun ! 1)) \<noteq> ''data/index.html''"
  unfolding spaObjectPath_defaultConfig spaFallbackRun_eq run_asset_default
  by (simp add: calls_of_def newGetObjectInput_Bucket newGetObjectInput_Key defaultConfig_def)

text \<open>
  C5, as the code has it.  The route \<^verbatim>\<open>/apps/*\<close> removes the prefix \<^verbatim>\<open>/apps\<close> and keeps
  the rest under \<^verbatim>\<open>/data\<close>, the name of the app included: with the prefix
  \<^verbatim>\<open>/frontend-assets\<close>, \<^verbatim>\<open>GET /apps/chrome/navigation.json\<close> resolves to
  \<^verbatim>\<open>/frontend-assets/data/chrome/navigation.json\<close> and fetches the key
  \<^verbatim>\<open>data/chrome/navigation.json\<close> from the bucket \<^verbatim>\<open>frontend-assets\<close>.  When that fetch
  returns an object with content type \<^verbatim>\<open>application/json\<close>, the response has status 200
  and the header \<^verbatim>\<open>Content-Type: application/json\<close>.
\<close>

theorem apps_route_keeps_app_segment:
  assumes "BucketPathPrefix cfg = ''/frontend-assets''"
    and "URL_Path r = ''/apps/chrome/navigation.json''"
    and "GetObject s3c \<sigma>
           (newGetObjectInput lib r ''frontend-assets'' ''data/chrome/navigation.json'') =
         (Inr obj, \<sigma>')"
    and "ContentType obj = Some ''application/json''"
  shows "appsPath cfg r = ''/frontend-assets/data/chrome/navigation.json''
       \<and> map (\<lambda>c. (Bucket (fst c), Key (fst c))) (calls_of (appsHandler lib s3c \<sigma> cfg r)) =
           [(''frontend-assets'', ''data/chrome/navigation.json'')]
       \<and> (\<exists>w. response_of (appsHandler lib s3c \<sigma> cfg r) = Some w \<and> Code w = 200
              \<and> HeaderMap w ''Content-Type'' = Some ''application/json'')"
proof -
  have path: "appsPath cfg r = ''/frontend-assets/data/chrome/navigation.json''"
    using assms(2,1) by (rule appsPath_navigation)
  have "appsHandler lib s3c \<sigma> cfg r =
      (Some (writeObject lib r obj),
       [(newGetObjectInput lib r ''frontend-assets'' ''data/chrome/navigation.json'', Inr obj)],
       \<sigma>')"
    unfolding appsHandler_def path
    by (rule ProxyS3_fetched [OF split_navigation assms(3)])
  then show ?thesis
    by (simp add: path response_of_def calls_of_def writeObject_Code writeObject_ContentType
        assms(4) newGetObjectInput_Bucket newGetObjectInput_Key)
qed

theorem apps_route_keeps_app_segment_witness:
  "BucketPathPrefix defaultConfig = ''/frontend-assets''
   \<and> URL_Path (getRequest ''/apps/chrome/navigation.json'') = ''/apps/chrome/navigation.json''
   \<and> GetObject assetStore ()
        (newGetObjectInput exampleLib (getRequest ''/apps/chrome/navigation.json'')
           ''frontend-assets'' ''data/chrome/navigation.json'') = (Inr navigationObject, ())
   \<and> ContentType navigationObject = Some ''application/json''
   \<and> appsPath defaultConfig (getRequest ''/apps/chrome/navigation.json'') =
       ''/frontend-assets/data/chrome/navigation.json''
   \<and> map_option Code (response_of navigationRun) = Some 200
   \<and> map_option (\<lambda>w. HeaderMap w ''Content-Type'') (response_of navigationRun) =
       Some (Some ''application/json'')"
proof -
  have p: "BucketPathPrefix defaultConfig = ''/frontend-assets''"
    by (simp add: defaultConfig_def)
  have u: "URL_Path (getRequest ''/apps/chrome/navigation.json'') = ''/apps/chrome/navigation.json''"
    by (simp add: getRequest_def)
  have c: "ContentType navigationObject = Some ''application/json''"
    by (simp add: navigationObject_def)
  note w = apps_route_keeps_app_segment
    [where lib = exampleLib and \<sigma> = "()" and s3c = assetStore,
      OF p u GetObject_assetStore_navigation c]
  from w [THEN conjunct2, THEN conjunct2]
  have resp: "map_option Code (response_of navigationRun) = Some 200
      \<and> map_option (\<lambda>w. HeaderMap w ''Content-Type'') (response_of navigationRun) =
          Some (Some ''application/json'')"
    unfolding navigationRun_def by auto
  show ?thesis
    by (intro conjI p u GetObject_assetStore_navigation c w [THEN conjunct1]
        resp [THEN conjunct1] resp [THEN conjunct2])
qed

text \<open>
  C5 as it is stated does not hold: the path resolved is not
  \<^verbatim>\<open>/frontend-assets/data/navigation.json\<close>.
\<close>

theorem apps_route_keeps_app_segment_counterexample:
  "appsPath defaultConfig (getRequest ''/apps/chrome/navigation.json'') =
       ''/frontend-assets/data/chrome/navigation.json''
   \<and> appsPath defaultConfig (getRequest ''/apps/chrome/navigation.json'') \<noteq>
       ''/frontend-assets/data/navigation.json''
   \<and> length (calls_of navigationRun) = 1
   \<and> Bucket (fst (calls_of navigationRun ! 0)) = ''frontend-assets''
   \<and> Key (fst (calls_of navigationRun ! 0)) = ''data/chrome/navigation.json''
   \<and> Key (fst (calls_of navigationRun ! 0)) \<noteq> ''data/navigation.json''"
proof -
  have "appsPath defaultConfig (getRequest ''/apps/chrome/navigation.json'') =
      ''/frontend-assets/data/chrome/navigation.json''"
    by (rule appsPath_navigation) (simp_all add: getRequest_def defaultConfig_def)
  then show ?thesis
    unfolding navigationRun_eval
    by (simp add: calls_of_def newGetObjectInput_Bucket newGetObjectInput_Key)
qed

end
